theory Spec2Isabelle
  imports Complex_Main "HOL-Library.Sublist" "HOL-Library.AList"
begin

section \<open>Strings\<close>

text \<open>
  JavaScript strings are modelled as \<open>string\<close> (lists of 8-bit characters). The model
  covers ASCII text: \<open>trim\<close> strips the ASCII white space characters and
  \<open>toUpperCase\<close> maps the letters a..z to A..Z; every other character is left as it is.
\<close>

definition is_whitespace :: "char \<Rightarrow> bool" where
  "is_whitespace c = (c \<in> set [CHR 0x09, CHR 0x0A, CHR 0x0B, CHR 0x0C, CHR 0x0D, CHR 0x20])"

definition trim :: "string \<Rightarrow> string" where
  "trim s = rev (dropWhile is_whitespace (rev (dropWhile is_whitespace s)))"

definition upper_char :: "char \<Rightarrow> char" where
  "upper_char c =
     (case map_of (zip ''abcdefghijklmnopqrstuvwxyz'' ''ABCDEFGHIJKLMNOPQRSTUVWXYZ'') c of
        None \<Rightarrow> c | Some u \<Rightarrow> u)"

definition toUpperCase :: "string \<Rightarrow> string" where
  "toUpperCase s = map upper_char s"

text \<open>\<open>s.startsWith(t)\<close> and \<open>s.includes(t)\<close>: a scan of \<open>s\<close> for an occurrence of \<open>t\<close>.\<close>

fun startsWith :: "string \<Rightarrow> string \<Rightarrow> bool" where
  "startsWith s [] = True"
| "startsWith [] (b # t) = False"
| "startsWith (a # s) (b # t) = (a = b \<and> startsWith s t)"

fun includes_str :: "string \<Rightarrow> string \<Rightarrow> bool" where
  "includes_str [] t = (t = [])"
| "includes_str (a # s) t = (startsWith (a # s) t \<or> includes_str s t)"

text \<open>
  \<open>xs.join(sep)\<close> on an array whose elements are strings or \<open>undefined\<close>
  (\<open>None\<close>): an undefined element contributes the empty string.
\<close>

type_synonym chunk = "string option"

definition chunk_str :: "chunk \<Rightarrow> string" where
  "chunk_str c = (case c of None \<Rightarrow> [] | Some s \<Rightarrow> s)"

fun join :: "string \<Rightarrow> chunk list \<Rightarrow> string" where
  "join sep [] = []"
| "join sep [c] = chunk_str c"
| "join sep (c # d # cs) = chunk_str c @ sep @ join sep (d # cs)"

text \<open>The decimal numeral of a number, as a template literal prints it.\<close>

definition digit_char :: "nat \<Rightarrow> char" where
  "digit_char d = ''0123456789'' ! d"

fun show_nat :: "nat \<Rightarrow> string" where
  "show_nat n = (if n < 10 then [digit_char n] else show_nat (n div 10) @ [digit_char (n mod 10)])"

declare show_nat.simps [simp del]

section \<open>External services and the world they act on\<close>

type_synonym embedding = "real list"

text \<open>A thrown exception; the field is its \<open>code\<close> property, if it has one.\<close>

datatype js_error = JsError (js_code: "string option")

text \<open>A Postgres error object as returned by the Supabase client; the field is its \<open>code\<close>.\<close>

datatype pg_error = PgError (code: string)

text \<open>
  How a request to the store goes wrong, if it does: it answers with an error object,
  or the promise rejects.
\<close>

datatype fault = NoFault | ErrorResult pg_error | Rejects js_error

record 'a rpc_result =
  data :: "'a option"
  error :: "pg_error option"

definition store_response :: "fault \<Rightarrow> 'a \<Rightarrow> js_error + 'a rpc_result" where
  "store_response f rows =
     (case f of
        NoFault \<Rightarrow> Inr \<lparr>data = Some rows, error = None\<rparr>
      | ErrorResult err \<Rightarrow> Inr \<lparr>data = None, error = Some err\<rparr>
      | Rejects x \<Rightarrow> Inl x)"

datatype status = Pending | Resolved

datatype verdict = YES | NO

text \<open>
  The tables \<open>knowledge_base\<close> and \<open>admin_queue\<close> of schema.sql and
  add_inbox_embeddings.sql. The time stamp columns are not modelled.
\<close>

record kb_row =
  kb_id :: nat
  kb_question :: string
  kb_answer :: string
  kb_embedding :: "embedding option"

record queue_row =
  aq_id :: nat
  user_question :: string
  aq_status :: status
  aq_embedding :: "embedding option"

text \<open>The rows returned by \<open>match_documents\<close> and \<open>match_inbox_questions\<close>.\<close>

record kb_match =
  m_id :: nat
  m_question :: string
  m_answer :: string
  m_similarity :: real

record inbox_match =
  im_id :: nat
  im_user_question :: string
  im_similarity :: real

text \<open>One element of a generation stream, and the citation metadata it may carry.\<close>

record web_ref =
  web_uri :: "string option"
  web_title :: "string option"

record gen_chunk =
  get_text :: "js_error + string"
  groundingChunks :: "web_ref option list option"

text \<open>
  A generation stream: finitely many chunks, after which the stream completes
  (\<open>stream_failure = None\<close>) or fails with an exception.
\<close>

record gen_stream =
  stream_chunks :: "gen_chunk list"
  stream_failure :: "js_error option"

text \<open>
  Every request the program sends to an external service, every launch of the background
  enqueue task and every \<open>console.error\<close> line, in the order of one sequential run.
\<close>

datatype call =
    EmbeddingsCreate string
  | MatchDocuments embedding real nat
  | GenerateContent string
  | GenerateContentStream string bool string
  | AddToAdminQueue string embedding
  | MatchInboxQuestions embedding real nat
  | QueueInsert string status embedding
  | KbInsert string string embedding
  | KbUpdate nat string string embedding
  | QueueResolve nat
  | ConsoleError string

record session =
  isAdmin :: bool

text \<open>
  The behaviour of the external services during one request. The embedding and
  generation services are opaque functions of their input; \<open>distance\<close> is the cosine
  distance operator \<open><=>\<close> of the vector store.
\<close>

record env =
  getSession :: "js_error + session option"
  embeddings_create :: "string \<Rightarrow> js_error + embedding"
  distance :: "embedding \<Rightarrow> embedding \<Rightarrow> real"
  generateContent :: "string \<Rightarrow> js_error + string"
  generateContentStream :: "string \<Rightarrow> bool \<Rightarrow> string \<Rightarrow> js_error + gen_stream"
  match_documents_fault :: fault
  match_inbox_fault :: fault
  queue_insert_fault :: fault
  queue_resolve_fault :: fault
  kb_write_fault :: fault

record world =
  knowledge_base :: "kb_row list"
  admin_queue :: "queue_row list"
  calls :: "call list"

definition log_call :: "call \<Rightarrow> world \<Rightarrow> world" where
  "log_call c w = w\<lparr>calls := calls w @ [c]\<rparr>"

text \<open>\<open>gen_random_uuid()\<close>: an identifier that no row of the table carries.\<close>

definition fresh_id :: "nat list \<Rightarrow> nat" where
  "fresh_id ids = Suc (fold max ids 0)"

section \<open>The similarity queries of the store\<close>

text \<open>
  \<open>match_documents\<close> (schema.sql) and \<open>match_inbox_questions\<close>
  (add_inbox_embeddings.sql): the rows with an embedding whose similarity
  \<open>1 - (embedding <=> query_embedding)\<close> reaches the threshold, closest first, at
  most \<open>match_count\<close> of them. Rows at the same distance keep their table order.
\<close>

definition kb_candidate :: "env \<Rightarrow> embedding \<Rightarrow> real \<Rightarrow> kb_row \<Rightarrow> bool" where
  "kb_candidate e query_embedding match_threshold kb =
     (case kb_embedding kb of
        None \<Rightarrow> False
      | Some v \<Rightarrow> 1 - distance e v query_embedding \<ge> match_threshold)"

definition kb_distance :: "env \<Rightarrow> embedding \<Rightarrow> kb_row \<Rightarrow> real" where
  "kb_distance e query_embedding kb =
     (case kb_embedding kb of None \<Rightarrow> 0 | Some v \<Rightarrow> distance e v query_embedding)"

definition match_documents ::
  "env \<Rightarrow> kb_row list \<Rightarrow> embedding \<Rightarrow> real \<Rightarrow> nat \<Rightarrow> kb_match list" where
  "match_documents e tbl query_embedding match_threshold match_count =
     take match_count
       (map (\<lambda>kb. \<lparr>m_id = kb_id kb, m_question = kb_question kb, m_answer = kb_answer kb,
                   m_similarity = 1 - kb_distance e query_embedding kb\<rparr>)
          (sort_key (kb_distance e query_embedding)
             (filter (kb_candidate e query_embedding match_threshold) tbl)))"

definition inbox_candidate :: "env \<Rightarrow> embedding \<Rightarrow> real \<Rightarrow> queue_row \<Rightarrow> bool" where
  "inbox_candidate e query_embedding match_threshold aq =
     (case aq_embedding aq of
        None \<Rightarrow> False
      | Some v \<Rightarrow> aq_status aq = Pending \<and> 1 - distance e v query_embedding \<ge> match_threshold)"

definition inbox_distance :: "env \<Rightarrow> embedding \<Rightarrow> queue_row \<Rightarrow> real" where
  "inbox_distance e query_embedding aq =
     (case aq_embedding aq of None \<Rightarrow> 0 | Some v \<Rightarrow> distance e v query_embedding)"

definition match_inbox_questions ::
  "env \<Rightarrow> queue_row list \<Rightarrow> embedding \<Rightarrow> real \<Rightarrow> nat \<Rightarrow> inbox_match list" where
  "match_inbox_questions e tbl query_embedding match_threshold match_count =
     take match_count
       (map (\<lambda>aq. \<lparr>im_id = aq_id aq, im_user_question = user_question aq,
                   im_similarity = 1 - inbox_distance e query_embedding aq\<rparr>)
          (sort_key (inbox_distance e query_embedding)
             (filter (inbox_candidate e query_embedding match_threshold) tbl)))"

section \<open>The embedding call\<close>

definition generateEmbedding ::
  "env \<Rightarrow> string \<Rightarrow> string option \<Rightarrow> world \<Rightarrow> (js_error + embedding) \<times> world" where
  "generateEmbedding e question answer w =
     (let text = (case answer of
                    None \<Rightarrow> question
                  | Some a \<Rightarrow> if a \<noteq> [] then question @ ''\<newline>\<newline>'' @ a else question)
      in (embeddings_create e text, log_call (EmbeddingsCreate text) w))"

section \<open>The relevance judge\<close>

definition judgePrompt :: "string \<Rightarrow> chunk list \<Rightarrow> string" where
  "judgePrompt question dbChunks =
     ''You are evaluating if the provided context answers the question.\<newline>\<newline>Context:\<newline>''
     @ join ''\<newline>\<newline>'' dbChunks
     @ ''\<newline>\<newline>Question: '' @ question
     @ ''\<newline>\<newline>Does the context provide a CLEAR and COMPLETE answer to this specific question?\<newline>Reply ONLY with 'YES' or 'NO'.''"

definition judgeContextRelevance ::
  "env \<Rightarrow> string \<Rightarrow> chunk list \<Rightarrow> world \<Rightarrow> verdict \<times> world" where
  "judgeContextRelevance e question dbChunks w =
     (if length dbChunks = 0 then (NO, w)
      else
        let judgePrompt = judgePrompt question dbChunks;
            w' = log_call (GenerateContent judgePrompt) w
        in case generateContent e judgePrompt of
             Inl err \<Rightarrow> (NO, log_call (ConsoleError ''Judge error:'') w')
           | Inr rawResponse \<Rightarrow>
               let response = toUpperCase (trim rawResponse);
                   isRelevant = (includes_str response ''YES'' \<and> \<not> includes_str response ''NO'')
               in (if isRelevant then YES else NO, w'))"

section \<open>The answer generators\<close>

text \<open>
  What a generator does, in order: it receives a chunk from the underlying stream, it
  sees the underlying stream complete, it yields a string to its consumer.
\<close>

datatype gen_event = Received | Completed | Yield string

fun yields :: "gen_event list \<Rightarrow> string list" where
  "yields [] = []"
| "yields (Yield s # evs) = s # yields evs"
| "yields (ev # evs) = yields evs"

definition yield_text :: "string \<Rightarrow> gen_event list" where
  "yield_text text = (if text \<noteq> [] then [Yield text] else [])"

text \<open>
  A stream completes without error when it does not fail and the text of each chunk can
  be read; \<open>stream_texts\<close> are these texts in order.
\<close>

definition readable :: "gen_chunk \<Rightarrow> bool" where
  "readable c = (case get_text c of Inl err \<Rightarrow> False | Inr t \<Rightarrow> True)"

definition completes :: "gen_stream \<Rightarrow> bool" where
  "completes r = (stream_failure r = None \<and> list_all readable (stream_chunks r))"

definition stream_texts :: "gen_chunk list \<Rightarrow> string list" where
  "stream_texts cs = [t. Inr t \<leftarrow> map get_text cs]"

definition non_empty :: "string list \<Rightarrow> string list" where
  "non_empty ts = filter (\<lambda>t. t \<noteq> []) ts"

definition db_footer :: string where
  "db_footer = ''\<newline>\<newline>---\<newline>**Source:** Database (Internal Knowledge Base)''"

definition internal_error_message :: string where
  "internal_error_message = ''I encountered an error generating the answer.''"

definition internal_systemPrompt :: string where
  "internal_systemPrompt =
     ''You are the Pirani AI. Answer using ONLY the context provided. Do not use outside knowledge.''"

definition internal_userPrompt :: "string \<Rightarrow> chunk list \<Rightarrow> string" where
  "internal_userPrompt question dbChunks =
     ''Context:\<newline>'' @ join ''\<newline>\<newline>'' dbChunks
     @ ''\<newline>\<newline>Question: '' @ question
     @ ''\<newline>\<newline>Answer the question using ONLY the information from the context above.''"

text \<open>
  The \<open>for await\<close> loop of \<open>generateInternalAnswer\<close>. The second component is the
  exception that ended the loop, if one did.
\<close>

fun internal_loop :: "gen_chunk list \<Rightarrow> js_error option \<Rightarrow> gen_event list \<times> js_error option" where
  "internal_loop [] None = ([Completed], None)"
| "internal_loop [] (Some err) = ([], Some err)"
| "internal_loop (c # cs) fin =
     (case get_text c of
        Inl err \<Rightarrow> ([Received], Some err)
      | Inr text \<Rightarrow>
          (case internal_loop cs fin of
             (evs, r) \<Rightarrow> (Received # yield_text text @ evs, r)))"

definition generateInternalAnswer ::
  "env \<Rightarrow> string \<Rightarrow> chunk list \<Rightarrow> world \<Rightarrow> gen_event list \<times> world" where
  "generateInternalAnswer e question dbChunks w =
     (let userPrompt = internal_userPrompt question dbChunks;
          w1 = log_call (GenerateContentStream internal_systemPrompt False userPrompt) w
      in case generateContentStream e internal_systemPrompt False userPrompt of
           Inl err \<Rightarrow>
             ([Yield internal_error_message],
              log_call (ConsoleError ''Internal answer generation error:'') w1)
         | Inr result \<Rightarrow>
             (case internal_loop (stream_chunks result) (stream_failure result) of
                (evs, None) \<Rightarrow> (evs @ [Yield db_footer], w1)
              | (evs, Some err) \<Rightarrow>
                  (evs @ [Yield internal_error_message],
                   log_call (ConsoleError ''Internal answer generation error:'') w1)))"

record source =
  title :: string
  url :: string

definition web_systemPrompt :: string where
  "web_systemPrompt =
     ''You are the Pirani AI. Search for the answer. Context: Pirani Life (sustainable tumblers). Verify facts before answering.''"

definition web_error_message :: string where
  "web_error_message = ''I encountered an error searching for the answer.''"

definition sources_header :: string where
  "sources_header = ''\<newline>\<newline>---\<newline>**Sources:**\<newline>''"

definition google_search_footer :: string where
  "google_search_footer = ''\<newline>\<newline>---\<newline>**Source:** Google Search''"

definition source_line :: "nat \<Rightarrow> source \<Rightarrow> string" where
  "source_line i s = show_nat (i + 1) @ ''. ['' @ title s @ ''](''  @ url s @ '')\<newline>''"

text \<open>
  The body of the \<open>forEach\<close> over the grounding chunks of one stream chunk: a citation
  with a non-empty uri and title becomes a source, which is pushed unless a source with its
  url is already there.
\<close>

definition web_source :: "web_ref option \<Rightarrow> source option" where
  "web_source c =
     (case c of
        None \<Rightarrow> None
      | Some web \<Rightarrow>
          (case (web_uri web, web_title web) of
             (Some u, Some t) \<Rightarrow> if u \<noteq> [] \<and> t \<noteq> [] then Some \<lparr>title = t, url = u\<rparr> else None
           | _ \<Rightarrow> None))"

definition add_source :: "source list \<Rightarrow> web_ref option \<Rightarrow> source list" where
  "add_source sources c =
     (case web_source c of
        None \<Rightarrow> sources
      | Some newSource \<Rightarrow>
          if find (\<lambda>s. url s = url newSource) sources = None
          then sources @ [newSource] else sources)"

definition capture_citations :: "source list \<Rightarrow> gen_chunk \<Rightarrow> source list" where
  "capture_citations sources c =
     (case groundingChunks c of
        None \<Rightarrow> sources
      | Some gcs \<Rightarrow> foldl add_source sources gcs)"

text \<open>
  \<open>Array.from(new Map(entries).values())\<close>: a JavaScript Map keeps a key at the
  position of its first insertion and the value of its last.
\<close>

definition js_Map :: "('k \<times> 'v) list \<Rightarrow> ('k \<times> 'v) list" where
  "js_Map entries = foldl (\<lambda>m (k, v). AList.update k v m) [] entries"

definition uniqueSources :: "source list \<Rightarrow> source list" where
  "uniqueSources sources = map snd (js_Map (map (\<lambda>s. (url s, s)) sources))"

definition sources_footer :: "source list \<Rightarrow> string list" where
  "sources_footer sources =
     (if length sources > 0
      then sources_header # map (\<lambda>(i, s). source_line i s) (enumerate 0 (uniqueSources sources))
      else [google_search_footer])"

text \<open>
  The \<open>for await\<close> loop of \<open>generateWebSearchAnswer\<close>, with the sources collected so
  far; it ends with the collected sources or with the exception that stopped it.
\<close>

fun web_loop ::
  "gen_chunk list \<Rightarrow> js_error option \<Rightarrow> source list \<Rightarrow> gen_event list \<times> (js_error + source list)" where
  "web_loop [] None sources = ([Completed], Inr sources)"
| "web_loop [] (Some err) sources = ([], Inl err)"
| "web_loop (c # cs) fin sources =
     (case get_text c of
        Inl err \<Rightarrow> ([Received], Inl err)
      | Inr text \<Rightarrow>
          (case web_loop cs fin (capture_citations sources c) of
             (evs, r) \<Rightarrow> (Received # yield_text text @ evs, r)))"

definition generateWebSearchAnswer ::
  "env \<Rightarrow> string \<Rightarrow> world \<Rightarrow> gen_event list \<times> world" where
  "generateWebSearchAnswer e question w =
     (let w1 = log_call (GenerateContentStream web_systemPrompt True question) w
      in case generateContentStream e web_systemPrompt True question of
           Inl err \<Rightarrow>
             ([Yield web_error_message],
              log_call (ConsoleError ''Web search answer generation error:'') w1)
         | Inr result \<Rightarrow>
             (case web_loop (stream_chunks result) (stream_failure result) [] of
                (evs, Inr sources) \<Rightarrow> (evs @ map Yield (sources_footer sources), w1)
              | (evs, Inl err) \<Rightarrow>
                  (evs @ [Yield web_error_message],
                   log_call (ConsoleError ''Web search answer generation error:'') w1)))"

text \<open>
  The citations a stream carries, in the order in which the loop meets them: every
  grounding chunk with a non-empty uri and title.
\<close>

definition chunk_citations :: "gen_chunk \<Rightarrow> source list" where
  "chunk_citations c =
     (case groundingChunks c of
        None \<Rightarrow> []
      | Some gcs \<Rightarrow> List.map_filter web_source gcs)"

definition citations :: "gen_chunk list \<Rightarrow> source list" where
  "citations cs = concat (map chunk_citations cs)"

text \<open>
  The deduplication as the specification words it: citations are deduplicated by URL,
  the first occurrence wins, and insertion order is preserved.
\<close>

fun spec_dedup_by_url :: "source list \<Rightarrow> source list" where
  "spec_dedup_by_url [] = []"
| "spec_dedup_by_url (s # ss) = s # filter (\<lambda>t. url t \<noteq> url s) (spec_dedup_by_url ss)"

section \<open>The deduplicating queue writer\<close>

definition queue_insert :: "env \<Rightarrow> string \<Rightarrow> embedding \<Rightarrow> world \<Rightarrow> world" where
  "queue_insert e question questionEmbedding w =
     (let w1 = log_call (QueueInsert (trim question) Pending questionEmbedding) w
      in case queue_insert_fault e of
           NoFault \<Rightarrow>
             w1\<lparr>admin_queue := admin_queue w1 @
                   [\<lparr>aq_id = fresh_id (map aq_id (admin_queue w1)),
                     user_question = trim question,
                     aq_status = Pending,
                     aq_embedding = Some questionEmbedding\<rparr>]\<rparr>
         | ErrorResult err \<Rightarrow>
             if code err \<noteq> ''23505''
             then log_call (ConsoleError ''Error adding to admin queue:'') w1 else w1
         | Rejects x \<Rightarrow>
             if js_code x \<noteq> Some ''23505''
             then log_call (ConsoleError ''Error adding to admin queue:'') w1 else w1)"

text \<open>
  \<open>addToAdminQueue\<close> starts a task that the caller does not await. The model runs the
  task to its end at the place where it is started, which is one of the orders in which
  the task and its caller can interleave.
\<close>

definition addToAdminQueue :: "env \<Rightarrow> string \<Rightarrow> embedding \<Rightarrow> world \<Rightarrow> world" where
  "addToAdminQueue e question questionEmbedding w =
     (let w0 = log_call (AddToAdminQueue question questionEmbedding) w;
          w1 = log_call (MatchInboxQuestions questionEmbedding 0.85 1) w0
      in case store_response (match_inbox_fault e)
                (match_inbox_questions e (admin_queue w1) questionEmbedding 0.85 1) of
           Inl x \<Rightarrow>
             if js_code x \<noteq> Some ''23505''
             then log_call (ConsoleError ''Error adding to admin queue:'') w1 else w1
         | Inr res \<Rightarrow>
             (case error res of
                Some inboxCheckError \<Rightarrow>
                  queue_insert e question questionEmbedding
                    (log_call (ConsoleError ''Error checking inbox for duplicates:'') w1)
              | None \<Rightarrow>
                  (case data res of
                     Some similarInboxQuestions \<Rightarrow>
                       if length similarInboxQuestions > 0 then w1
                       else queue_insert e question questionEmbedding w1
                   | None \<Rightarrow> queue_insert e question questionEmbedding w1)))"

section \<open>The chat route\<close>

datatype response = JsonError nat string | JsonSuccess kb_row | Stream "string list"

text \<open>The \<open>question\<close> field of the request body: a string, or anything else.\<close>

datatype question_field = QString string | QOther

definition chat_api_error :: "world \<Rightarrow> response \<times> world" where
  "chat_api_error w =
     (JsonError 500 ''Internal server error'', log_call (ConsoleError ''Chat API error:'') w)"

text \<open>
  A chunk is \<open>match.answer || match.content\<close>; the rows of \<open>match_documents\<close> have no
  \<open>content\<close> column, so a row with an empty answer gives \<open>undefined\<close>.
\<close>

definition match_chunk :: "kb_match \<Rightarrow> chunk" where
  "match_chunk m = (if m_answer m \<noteq> [] then Some (m_answer m) else None)"

definition retrieval ::
  "env \<Rightarrow> string \<Rightarrow> world \<Rightarrow> (response + embedding \<times> chunk list) \<times> world" where
  "retrieval e question w =
     (case generateEmbedding e question None w of
        (Inl x, w1) \<Rightarrow> (Inl (fst (chat_api_error w1)), snd (chat_api_error w1))
      | (Inr queryEmbedding, w1) \<Rightarrow>
          let w2 = log_call (MatchDocuments queryEmbedding 0.50 5) w1
          in case store_response (match_documents_fault e)
                    (match_documents e (knowledge_base w2) queryEmbedding 0.50 5) of
               Inl x \<Rightarrow> (Inl (fst (chat_api_error w2)), snd (chat_api_error w2))
             | Inr res \<Rightarrow>
                 (case error res of
                    Some searchError \<Rightarrow>
                      (Inl (JsonError 500 ''Failed to search knowledge base''),
                       log_call (ConsoleError ''Database search error:'') w2)
                  | None \<Rightarrow>
                      (Inr (queryEmbedding,
                            case data res of None \<Rightarrow> [] | Some matches \<Rightarrow> map match_chunk matches),
                       w2)))"

definition judge_step :: "env \<Rightarrow> string \<Rightarrow> chunk list \<Rightarrow> world \<Rightarrow> verdict \<times> world" where
  "judge_step e question dbChunks w =
     (if length dbChunks > 0 then judgeContextRelevance e question dbChunks w else (NO, w))"

definition stream_start ::
  "env \<Rightarrow> string \<Rightarrow> embedding \<Rightarrow> chunk list \<Rightarrow> verdict \<Rightarrow> world \<Rightarrow> string list \<times> world" where
  "stream_start e question queryEmbedding dbChunks judgment w =
     (if judgment = YES then
        (case generateInternalAnswer e question dbChunks w of
           (evs, w1) \<Rightarrow> (yields evs, w1))
      else
        (case generateWebSearchAnswer e question
                (addToAdminQueue e question queryEmbedding w) of
           (evs, w1) \<Rightarrow> (yields evs, w1)))"

definition chat_POST :: "env \<Rightarrow> (js_error + question_field) \<Rightarrow> world \<Rightarrow> response \<times> world" where
  "chat_POST e body w =
     (case getSession e of
        Inl x \<Rightarrow> chat_api_error w
      | Inr None \<Rightarrow> (JsonError 401 ''Unauthorized'', w)
      | Inr (Some session) \<Rightarrow>
          (case body of
             Inl x \<Rightarrow> chat_api_error w
           | Inr QOther \<Rightarrow> (JsonError 400 ''Question is required'', w)
           | Inr (QString question) \<Rightarrow>
               if question = [] then (JsonError 400 ''Question is required'', w)
               else
                 (case retrieval e question w of
                    (Inl resp, w1) \<Rightarrow> (resp, w1)
                  | (Inr (queryEmbedding, dbChunks), w1) \<Rightarrow>
                      if None \<in> set (take 3 dbChunks) then chat_api_error w1
                      else
                        (case judge_step e question dbChunks w1 of
                           (judgment, w2) \<Rightarrow>
                             (case stream_start e question queryEmbedding dbChunks judgment w2 of
                                (out, w3) \<Rightarrow> (Stream out, w3))))))"

section \<open>The knowledge routes\<close>

text \<open>
  The body of a knowledge request: the fields \<open>id\<close>, \<open>question\<close>, \<open>answer\<close> and
  \<open>queueId\<close>, each possibly missing.
\<close>

record kb_body =
  b_id :: "nat option"
  b_question :: "string option"
  b_answer :: "string option"
  b_queueId :: "nat option"

definition knowledge_api_error :: "string \<Rightarrow> world \<Rightarrow> response \<times> world" where
  "knowledge_api_error msg w = (JsonError 500 ''Internal server error'', log_call (ConsoleError msg) w)"

definition resolve_queue_item :: "nat \<Rightarrow> queue_row list \<Rightarrow> queue_row list" where
  "resolve_queue_item queueId tbl =
     map (\<lambda>aq. if aq_id aq = queueId then aq\<lparr>aq_status := Resolved\<rparr> else aq) tbl"

text \<open>
  The part of the create route that follows the embedding call: the insert into
  \<open>knowledge_base\<close> and, when the request names a queue item, its resolution.
\<close>

definition insert_knowledge ::
  "env \<Rightarrow> nat option \<Rightarrow> string \<Rightarrow> string \<Rightarrow> embedding \<Rightarrow> world \<Rightarrow> response \<times> world" where
  "insert_knowledge e queueId question answer embedding w1 =
     (let w2 = log_call (KbInsert (trim question) (trim answer) embedding) w1
      in case kb_write_fault e of
           Rejects x \<Rightarrow> knowledge_api_error ''Knowledge base POST API error:'' w2
         | ErrorResult kbError \<Rightarrow>
             (JsonError 500 ''Failed to create knowledge base entry'',
              log_call (ConsoleError ''Error creating knowledge base entry:'') w2)
         | NoFault \<Rightarrow>
             let kbData = \<lparr>kb_id = fresh_id (map kb_id (knowledge_base w2)),
                           kb_question = trim question,
                           kb_answer = trim answer,
                           kb_embedding = Some embedding\<rparr>;
                 w3 = w2\<lparr>knowledge_base := knowledge_base w2 @ [kbData]\<rparr>
             in case queueId of
                  None \<Rightarrow> (JsonSuccess kbData, w3)
                | Some i \<Rightarrow>
                    let w4 = log_call (QueueResolve i) w3
                    in case queue_resolve_fault e of
                         Rejects x \<Rightarrow> knowledge_api_error ''Knowledge base POST API error:'' w4
                       | ErrorResult err \<Rightarrow> (JsonSuccess kbData, w4)
                       | NoFault \<Rightarrow>
                           (JsonSuccess kbData,
                            w4\<lparr>admin_queue := resolve_queue_item i (admin_queue w4)\<rparr>))"

definition knowledge_POST :: "env \<Rightarrow> (js_error + kb_body) \<Rightarrow> world \<Rightarrow> response \<times> world" where
  "knowledge_POST e body w =
     (case getSession e of
        Inl x \<Rightarrow> knowledge_api_error ''Knowledge base POST API error:'' w
      | Inr None \<Rightarrow> (JsonError 401 ''Unauthorized'', w)
      | Inr (Some session) \<Rightarrow>
          if \<not> isAdmin session then (JsonError 401 ''Unauthorized'', w)
          else
            (case body of
               Inl x \<Rightarrow> knowledge_api_error ''Knowledge base POST API error:'' w
             | Inr b \<Rightarrow>
                 (case (b_question b, b_answer b) of
                    (Some question, Some answer) \<Rightarrow>
                      if question = [] \<or> answer = []
                      then (JsonError 400 ''Question and answer are required'', w)
                      else
                        (case generateEmbedding e question None w of
                           (Inl x, w1) \<Rightarrow> knowledge_api_error ''Knowledge base POST API error:'' w1
                         | (Inr embedding, w1) \<Rightarrow>
                             insert_knowledge e (b_queueId b) question answer embedding w1)
                  | _ \<Rightarrow> (JsonError 400 ''Question and answer are required'', w))))"

text \<open>
  The update of the row with the given primary key. When no row has the key,
  \<open>.single()\<close> answers with an error and nothing is written.
\<close>

definition update_kb_row :: "nat \<Rightarrow> string \<Rightarrow> string \<Rightarrow> embedding \<Rightarrow> kb_row list \<Rightarrow> kb_row list" where
  "update_kb_row i q a v tbl =
     map (\<lambda>kb. if kb_id kb = i
               then kb\<lparr>kb_question := q, kb_answer := a, kb_embedding := Some v\<rparr> else kb) tbl"

definition update_knowledge ::
  "env \<Rightarrow> nat \<Rightarrow> string \<Rightarrow> string \<Rightarrow> embedding \<Rightarrow> world \<Rightarrow> response \<times> world" where
  "update_knowledge e i question answer embedding w1 =
     (let w2 = log_call (KbUpdate i (trim question) (trim answer) embedding) w1
      in case kb_write_fault e of
           Rejects x \<Rightarrow> knowledge_api_error ''Knowledge base PUT API error:'' w2
         | ErrorResult err \<Rightarrow>
             (JsonError 500 ''Failed to update knowledge base entry'',
              log_call (ConsoleError ''Error updating knowledge base entry:'') w2)
         | NoFault \<Rightarrow>
             let tbl = update_kb_row i (trim question) (trim answer) embedding (knowledge_base w2)
             in case find (\<lambda>kb. kb_id kb = i) tbl of
                  None \<Rightarrow>
                    (JsonError 500 ''Failed to update knowledge base entry'',
                     log_call (ConsoleError ''Error updating knowledge base entry:'') w2)
                | Some row \<Rightarrow> (JsonSuccess row, w2\<lparr>knowledge_base := tbl\<rparr>))"

definition knowledge_PUT :: "env \<Rightarrow> (js_error + kb_body) \<Rightarrow> world \<Rightarrow> response \<times> world" where
  "knowledge_PUT e body w =
     (case getSession e of
        Inl x \<Rightarrow> knowledge_api_error ''Knowledge base PUT API error:'' w
      | Inr None \<Rightarrow> (JsonError 401 ''Unauthorized'', w)
      | Inr (Some session) \<Rightarrow>
          if \<not> isAdmin session then (JsonError 401 ''Unauthorized'', w)
          else
            (case body of
               Inl x \<Rightarrow> knowledge_api_error ''Knowledge base PUT API error:'' w
             | Inr b \<Rightarrow>
                 (case (b_id b, b_question b, b_answer b) of
                    (Some i, Some question, Some answer) \<Rightarrow>
                      if question = [] \<or> answer = []
                      then (JsonError 400 ''ID, question, and answer are required'', w)
                      else
                        (case generateEmbedding e question None w of
                           (Inl x, w1) \<Rightarrow> knowledge_api_error ''Knowledge base PUT API error:'' w1
                         | (Inr embedding, w1) \<Rightarrow>
                             update_knowledge e i question answer embedding w1)
                  | _ \<Rightarrow> (JsonError 400 ''ID, question, and answer are required'', w))))"

section \<open>Test fixtures\<close>

text \<open>
  Services and worlds used to run the definitions on concrete inputs. The test embedding
  of a text is its length, and two embeddings are at distance one hundredth per unit of
  difference.
\<close>

definition empty_world :: world where
  "empty_world = \<lparr>knowledge_base = [], admin_queue = [], calls = []\<rparr>"

definition test_embed :: "string \<Rightarrow> js_error + embedding" where
  "test_embed s = Inr [real (length s)]"

definition test_distance :: "embedding \<Rightarrow> embedding \<Rightarrow> real" where
  "test_distance a b = (case (a, b) of ([x], [y]) \<Rightarrow> \<bar>x - y\<bar> / 100 | _ \<Rightarrow> 1)"

definition test_env :: "(js_error + string) \<Rightarrow> (js_error + gen_stream) \<Rightarrow> env" where
  "test_env r g =
     \<lparr>getSession = Inr (Some \<lparr>isAdmin = True\<rparr>),
      embeddings_create = test_embed,
      distance = test_distance,
      generateContent = (\<lambda>p. r),
      generateContentStream = (\<lambda>sys tools p. g),
      match_documents_fault = NoFault,
      match_inbox_fault = NoFault,
      queue_insert_fault = NoFault,
      queue_resolve_fault = NoFault,
      kb_write_fault = NoFault\<rparr>"

definition kb_world :: world where
  "kb_world =
     \<lparr>knowledge_base =
        [\<lparr>kb_id = 1, kb_question = ''What is your return policy?'',
          kb_answer = ''Returns are accepted within 30 days.'', kb_embedding = Some [27]\<rparr>],
      admin_queue = [],
      calls = []\<rparr>"

definition queue_world :: world where
  "queue_world =
     \<lparr>knowledge_base = [],
      admin_queue =
        [\<lparr>aq_id = 1, user_question = ''Do you ship abroad?'', aq_status = Pending,
          aq_embedding = Some [10]\<rparr>],
      calls = []\<rparr>"

definition plain_chunk :: "string \<Rightarrow> gen_chunk" where
  "plain_chunk s = \<lparr>get_text = Inr s, groundingChunks = None\<rparr>"

definition plain_stream :: "string list \<Rightarrow> js_error + gen_stream" where
  "plain_stream ts = Inr \<lparr>stream_chunks = map plain_chunk ts, stream_failure = None\<rparr>"

definition cited_chunk :: "string \<Rightarrow> (string \<times> string) list \<Rightarrow> gen_chunk" where
  "cited_chunk s refs =
     \<lparr>get_text = Inr s,
      groundingChunks = Some (map (\<lambda>(t, u). Some \<lparr>web_uri = Some u, web_title = Some t\<rparr>) refs)\<rparr>"

definition cited_stream :: "gen_chunk list \<Rightarrow> js_error + gen_stream" where
  "cited_stream cs = Inr \<lparr>stream_chunks = cs, stream_failure = None\<rparr>"

section \<open>Reading the log\<close>

definition judge_calls :: "call list \<Rightarrow> string list" where
  "judge_calls cs = [p. GenerateContent p \<leftarrow> cs]"

definition generation_calls :: "call list \<Rightarrow> (string \<times> bool \<times> string) list" where
  "generation_calls cs = [(s, g, p). GenerateContentStream s g p \<leftarrow> cs]"

definition embedding_calls :: "call list \<Rightarrow> string list" where
  "embedding_calls cs = [t. EmbeddingsCreate t \<leftarrow> cs]"

definition enqueue_attempts :: "call list \<Rightarrow> (string \<times> embedding) list" where
  "enqueue_attempts cs = [(q, v). AddToAdminQueue q v \<leftarrow> cs]"

definition queue_inserts :: "call list \<Rightarrow> (string \<times> status \<times> embedding) list" where
  "queue_inserts cs = [(q, st, v). QueueInsert q st v \<leftarrow> cs]"

definition console_errors :: "call list \<Rightarrow> string list" where
  "console_errors cs = [m. ConsoleError m \<leftarrow> cs]"

section \<open>Substring search\<close>

lemma startsWith_prefix: "startsWith s t = prefix t s"
  by (induction s t rule: startsWith.induct) auto

lemma includes_sublist: "includes_str s t = sublist t s"
proof (induction s)
  case Nil
  show ?case by simp
next
  case (Cons a s)
  then show ?case
    by (cases t) (auto simp: startsWith_prefix sublist_Cons_right)
qed

lemma includes_iff: "includes_str s t \<longleftrightarrow> (\<exists>ps ss. s = ps @ t @ ss)"
  by (simp add: includes_sublist sublist_def)

section \<open>What each step adds to the log\<close>

lemma log_call_simps:
  "calls (log_call c w) = calls w @ [c]"
  "admin_queue (log_call c w) = admin_queue w"
  "knowledge_base (log_call c w) = knowledge_base w"
  by (simp_all add: log_call_def)

lemma proj_append:
  "judge_calls (xs @ ys) = judge_calls xs @ judge_calls ys"
  "generation_calls (xs @ ys) = generation_calls xs @ generation_calls ys"
  "embedding_calls (xs @ ys) = embedding_calls xs @ embedding_calls ys"
  "enqueue_attempts (xs @ ys) = enqueue_attempts xs @ enqueue_attempts ys"
  "queue_inserts (xs @ ys) = queue_inserts xs @ queue_inserts ys"
  "console_errors (xs @ ys) = console_errors xs @ console_errors ys"
  by (simp_all add: judge_calls_def generation_calls_def embedding_calls_def
      enqueue_attempts_def queue_inserts_def console_errors_def)

lemma proj_Nil:
  "judge_calls [] = []" "generation_calls [] = []" "embedding_calls [] = []"
  "enqueue_attempts [] = []" "queue_inserts [] = []" "console_errors [] = []"
  by (simp_all add: judge_calls_def generation_calls_def embedding_calls_def
      enqueue_attempts_def queue_inserts_def console_errors_def)

lemma proj_Cons:
  "judge_calls (c # cs) = (case c of GenerateContent p \<Rightarrow> [p] | _ \<Rightarrow> []) @ judge_calls cs"
  "generation_calls (c # cs) =
     (case c of GenerateContentStream s g p \<Rightarrow> [(s, g, p)] | _ \<Rightarrow> []) @ generation_calls cs"
  "embedding_calls (c # cs) = (case c of EmbeddingsCreate t \<Rightarrow> [t] | _ \<Rightarrow> []) @ embedding_calls cs"
  "enqueue_attempts (c # cs) =
     (case c of AddToAdminQueue q v \<Rightarrow> [(q, v)] | _ \<Rightarrow> []) @ enqueue_attempts cs"
  "queue_inserts (c # cs) = (case c of QueueInsert q st v \<Rightarrow> [(q, st, v)] | _ \<Rightarrow> []) @ queue_inserts cs"
  "console_errors (c # cs) = (case c of ConsoleError m \<Rightarrow> [m] | _ \<Rightarrow> []) @ console_errors cs"
  by (simp_all add: judge_calls_def generation_calls_def embedding_calls_def
      enqueue_attempts_def queue_inserts_def console_errors_def)

lemmas log_simps = log_call_simps proj_append proj_Nil proj_Cons

lemma judge_frame:
  "embedding_calls (calls (snd (judgeContextRelevance e q cs w))) = embedding_calls (calls w)"
  "enqueue_attempts (calls (snd (judgeContextRelevance e q cs w))) = enqueue_attempts (calls w)"
  "generation_calls (calls (snd (judgeContextRelevance e q cs w))) = generation_calls (calls w)"
  "queue_inserts (calls (snd (judgeContextRelevance e q cs w))) = queue_inserts (calls w)"
  by (simp_all add: judgeContextRelevance_def log_simps Let_def split: sum.splits)

lemma queue_insert_frame:
  "embedding_calls (calls (queue_insert e q v w)) = embedding_calls (calls w)"
  "enqueue_attempts (calls (queue_insert e q v w)) = enqueue_attempts (calls w)"
  "generation_calls (calls (queue_insert e q v w)) = generation_calls (calls w)"
  "judge_calls (calls (queue_insert e q v w)) = judge_calls (calls w)"
  "queue_inserts (calls (queue_insert e q v w)) = queue_inserts (calls w) @ [(trim q, Pending, v)]"
  by (simp_all add: queue_insert_def log_simps Let_def split: fault.splits)

lemma addToAdminQueue_frame:
  "embedding_calls (calls (addToAdminQueue e q v w)) = embedding_calls (calls w)"
  "enqueue_attempts (calls (addToAdminQueue e q v w)) = enqueue_attempts (calls w) @ [(q, v)]"
  "generation_calls (calls (addToAdminQueue e q v w)) = generation_calls (calls w)"
  "judge_calls (calls (addToAdminQueue e q v w)) = judge_calls (calls w)"
  by (simp_all add: addToAdminQueue_def queue_insert_frame store_response_def Let_def log_simps split: sum.splits fault.splits option.splits)

lemma internal_frame:
  "embedding_calls (calls (snd (generateInternalAnswer e q cs w))) = embedding_calls (calls w)"
  "enqueue_attempts (calls (snd (generateInternalAnswer e q cs w))) = enqueue_attempts (calls w)"
  "judge_calls (calls (snd (generateInternalAnswer e q cs w))) = judge_calls (calls w)"
  "queue_inserts (calls (snd (generateInternalAnswer e q cs w))) = queue_inserts (calls w)"
  by (simp_all add: generateInternalAnswer_def log_simps Let_def split: sum.splits prod.splits option.splits)

lemma web_frame:
  "embedding_calls (calls (snd (generateWebSearchAnswer e q w))) = embedding_calls (calls w)"
  "enqueue_attempts (calls (snd (generateWebSearchAnswer e q w))) = enqueue_attempts (calls w)"
  "judge_calls (calls (snd (generateWebSearchAnswer e q w))) = judge_calls (calls w)"
  "queue_inserts (calls (snd (generateWebSearchAnswer e q w))) = queue_inserts (calls w)"
  by (simp_all add: generateWebSearchAnswer_def log_simps Let_def split: sum.splits prod.splits option.splits)

lemma retrieval_frame:
  "embedding_calls (calls (snd (retrieval e q w))) = embedding_calls (calls w) @ [q]"
  "enqueue_attempts (calls (snd (retrieval e q w))) = enqueue_attempts (calls w)"
  "judge_calls (calls (snd (retrieval e q w))) = judge_calls (calls w)"
  "generation_calls (calls (snd (retrieval e q w))) = generation_calls (calls w)"
  "queue_inserts (calls (snd (retrieval e q w))) = queue_inserts (calls w)"
  by (simp_all add: retrieval_def generateEmbedding_def chat_api_error_def store_response_def log_simps Let_def split: sum.splits prod.splits option.splits fault.splits)

lemma judge_step_frame:
  "embedding_calls (calls (snd (judge_step e q cs w))) = embedding_calls (calls w)"
  "enqueue_attempts (calls (snd (judge_step e q cs w))) = enqueue_attempts (calls w)"
  "generation_calls (calls (snd (judge_step e q cs w))) = generation_calls (calls w)"
  "queue_inserts (calls (snd (judge_step e q cs w))) = queue_inserts (calls w)"
  by (simp_all add: judge_step_def judge_frame)

lemma stream_start_frame:
  "embedding_calls (calls (snd (stream_start e q v cs j w))) = embedding_calls (calls w)"
  "enqueue_attempts (calls (snd (stream_start e q v cs j w))) =
     enqueue_attempts (calls w) @ (if j = NO then [(q, v)] else [])"
  "judge_calls (calls (snd (stream_start e q v cs j w))) = judge_calls (calls w)"
  using internal_frame [of e q cs w] web_frame [of e q "addToAdminQueue e q v w"]
  by (cases j; simp add: stream_start_def addToAdminQueue_frame split: prod.splits; fastforce)+

section \<open>The similarity query and the insert\<close>

lemma sort_key_Nil_iff: "sort_key f xs = [] \<longleftrightarrow> xs = []"
  by (metis length_0_conv length_sort)

lemma match_inbox_nonempty:
  "(match_inbox_questions e tbl v th (Suc 0) \<noteq> []) = (\<exists>aq\<in>set tbl. inbox_candidate e v th aq)"
  by (simp add: match_inbox_questions_def sort_key_Nil_iff filter_empty_conv)

lemma match_inbox_similarity:
  assumes "m \<in> set (match_inbox_questions e tbl v th n)"
  shows "im_similarity m \<ge> th"
proof -
  from assms obtain aq where "aq \<in> set tbl" "inbox_candidate e v th aq"
      "m = \<lparr>im_id = aq_id aq, im_user_question = user_question aq,
            im_similarity = 1 - inbox_distance e v aq\<rparr>"
    unfolding match_inbox_questions_def
    using set_take_subset [of n] by fastforce
  then show ?thesis
    by (auto simp: inbox_candidate_def inbox_distance_def split: option.splits)
qed

lemma queue_insert_table:
  "queue_insert_fault e = NoFault \<Longrightarrow>
   admin_queue (queue_insert e q v w) =
     admin_queue w @ [\<lparr>aq_id = fresh_id (map aq_id (admin_queue w)), user_question = trim q,
                       aq_status = Pending, aq_embedding = Some v\<rparr>]"
  by (simp add: queue_insert_def log_simps Let_def)

section \<open>The generator loops\<close>

lemma yields_append: "yields (xs @ ys) = yields xs @ yields ys"
  by (induction xs rule: yields.induct) simp_all

lemma yields_map_Yield: "yields (map Yield ss) = ss"
  by (induction ss) simp_all

lemma yields_yield_text: "yields (yield_text t) = non_empty [t]"
  by (simp add: yield_text_def non_empty_def)

lemma Completed_notin_yield_text: "Completed \<notin> set (yield_text t)"
  by (simp add: yield_text_def)

lemma stream_texts_Cons:
  "get_text c = Inr t \<Longrightarrow> stream_texts (c # cs) = t # stream_texts cs"
  by (simp add: stream_texts_def)

lemma non_empty_Cons: "non_empty (t # ts) = non_empty [t] @ non_empty ts"
  by (simp add: non_empty_def)

lemma internal_loop_completes:
  "list_all readable cs \<Longrightarrow>
   \<exists>body. internal_loop cs None = (body @ [Completed], None)
        \<and> Completed \<notin> set body \<and> yields body = non_empty (stream_texts cs)"
proof (induction cs)
  case Nil
  show ?case by (simp add: stream_texts_def non_empty_def)
next
  case (Cons c cs)
  from Cons.prems obtain t where t: "get_text c = Inr t"
    by (auto simp: readable_def split: sum.splits)
  from Cons obtain body where b: "internal_loop cs None = (body @ [Completed], None)"
      "Completed \<notin> set body" "yields body = non_empty (stream_texts cs)"
    by auto
  have "internal_loop (c # cs) None = ((Received # yield_text t @ body) @ [Completed], None)"
    using t b(1) by simp
  moreover have "Completed \<notin> set (Received # yield_text t @ body)"
    using b(2) by (simp add: Completed_notin_yield_text)
  moreover have "yields (Received # yield_text t @ body) = non_empty (stream_texts (c # cs))"
    using b(3) non_empty_Cons [of t "stream_texts cs"]
    by (simp add: yields_append yields_yield_text stream_texts_Cons [OF t])
  ultimately show ?case by blast
qed

lemma web_loop_completes:
  "list_all readable cs \<Longrightarrow>
   \<exists>body. web_loop cs None src = (body @ [Completed], Inr (foldl capture_citations src cs))
        \<and> Completed \<notin> set body \<and> yields body = non_empty (stream_texts cs)"
proof (induction cs arbitrary: src)
  case Nil
  show ?case by (simp add: stream_texts_def non_empty_def)
next
  case (Cons c cs)
  from Cons.prems obtain t where t: "get_text c = Inr t"
    by (auto simp: readable_def split: sum.splits)
  from Cons.prems have "list_all readable cs" by simp
  from Cons.IH [OF this, of "capture_citations src c"]
  obtain body where b:
      "web_loop cs None (capture_citations src c) =
         (body @ [Completed], Inr (foldl capture_citations (capture_citations src c) cs))"
      "Completed \<notin> set body" "yields body = non_empty (stream_texts cs)"
    by auto
  have "web_loop (c # cs) None src =
          ((Received # yield_text t @ body) @ [Completed], Inr (foldl capture_citations src (c # cs)))"
    using t b(1) by simp
  moreover have "Completed \<notin> set (Received # yield_text t @ body)"
    using b(2) by (simp add: Completed_notin_yield_text)
  moreover have "yields (Received # yield_text t @ body) = non_empty (stream_texts (c # cs))"
    using b(3) non_empty_Cons [of t "stream_texts cs"]
    by (simp add: yields_append yields_yield_text stream_texts_Cons [OF t])
  ultimately show ?case by blast
qed

section \<open>Collecting and deduplicating citations\<close>

lemma add_source_push:
  "add_source S c =
     (case web_source c of
        None \<Rightarrow> S
      | Some s \<Rightarrow> if url s \<in> url ` set S then S else S @ [s])"
  by (auto simp: add_source_def find_None_iff image_iff split: option.splits)

lemma spec_dedup_filter:
  "spec_dedup_by_url (filter (\<lambda>s. P (url s)) xs) = filter (\<lambda>s. P (url s)) (spec_dedup_by_url xs)"
proof (induction xs)
  case Nil
  show ?case by simp
next
  case (Cons x xs)
  show ?case
  proof (cases "P (url x)")
    case True
    then show ?thesis
      using Cons.IH by (simp add: conj_commute)
  next
    case False
    then have "filter (\<lambda>s. P (url s) \<and> url s \<noteq> url x) (spec_dedup_by_url xs)
                 = filter (\<lambda>s. P (url s)) (spec_dedup_by_url xs)"
      by (intro filter_cong) auto
    with False show ?thesis
      using Cons.IH by (simp add: conj_commute)
  qed
qed

lemma filter_not_in_snoc:
  "filter (\<lambda>t. url t \<notin> url ` set (S @ [s])) xs
     = filter (\<lambda>t. url t \<noteq> url s) (filter (\<lambda>t. url t \<notin> url ` set S) xs)"
  by (induction xs) auto

lemma foldl_add_source:
  "foldl add_source S gcs =
     S @ spec_dedup_by_url (filter (\<lambda>s. url s \<notin> url ` set S) (List.map_filter web_source gcs))"
proof (induction gcs arbitrary: S)
  case Nil
  show ?case by (simp add: List.map_filter_simps)
next
  case (Cons c gcs)
  let ?ys = "List.map_filter web_source gcs"
  show ?case
  proof (cases "web_source c")
    case None
    then have "add_source S c = S" "List.map_filter web_source (c # gcs) = ?ys"
      by (simp_all add: add_source_push List.map_filter_simps)
    then show ?thesis
      using Cons.IH [of S] by simp
  next
    case (Some s)
    then have m: "List.map_filter web_source (c # gcs) = s # ?ys"
      by (simp add: List.map_filter_simps)
    show ?thesis
    proof (cases "url s \<in> url ` set S")
      case True
      with Some have "add_source S c = S"
        by (simp add: add_source_push)
      with True m show ?thesis
        using Cons.IH [of S] by simp
    next
      case False
      with Some have a: "add_source S c = S @ [s]"
        by (simp add: add_source_push)
      have "foldl add_source S (c # gcs) = foldl add_source (S @ [s]) gcs"
        using a by simp
      also have "\<dots> = (S @ [s]) @ spec_dedup_by_url (filter (\<lambda>t. url t \<notin> url ` set (S @ [s])) ?ys)"
        by (rule Cons.IH)
      also have "spec_dedup_by_url (filter (\<lambda>t. url t \<notin> url ` set (S @ [s])) ?ys)
                   = filter (\<lambda>t. url t \<noteq> url s)
                       (spec_dedup_by_url (filter (\<lambda>t. url t \<notin> url ` set S) ?ys))"
        unfolding filter_not_in_snoc by (rule spec_dedup_filter [of "\<lambda>u. u \<noteq> url s"])
      finally show ?thesis
        using False m by simp
    qed
  qed
qed

lemma spec_dedup_idem_filter:
  "distinct (map url S) \<Longrightarrow> spec_dedup_by_url S = S"
proof (induction S)
  case Nil
  show ?case by simp
next
  case (Cons x S)
  then have "filter (\<lambda>t. url t \<noteq> url x) S = S"
    by (intro filter_True) (auto simp: image_iff)
  with Cons show ?case by simp
qed

lemma distinct_spec_dedup: "distinct (map url (spec_dedup_by_url xs))"
proof (induction xs)
  case Nil
  show ?case by simp
next
  case (Cons x xs)
  then show ?case
    by (auto simp: distinct_map_filter)
qed

lemma set_spec_dedup: "url ` set (spec_dedup_by_url xs) = url ` set xs"
proof (induction xs)
  case Nil
  show ?case by simp
next
  case (Cons x xs)
  have "url ` set (filter (\<lambda>t. url t \<noteq> url x) ys) = url ` set ys - {url x}" for ys :: "source list"
    by (auto simp: image_iff)
  with Cons show ?case by auto
qed

lemma yields_map_Yield_comp: "yields (map (Yield \<circ> f) xs) = map f xs"
  by (induction xs) simp_all

lemma map_filter_append: "List.map_filter f (xs @ ys) = List.map_filter f xs @ List.map_filter f ys"
  by (simp add: List.map_filter_def)

lemma foldl_capture_citations:
  "foldl capture_citations S cs =
     S @ spec_dedup_by_url (filter (\<lambda>s. url s \<notin> url ` set S) (citations cs))"
proof -
  let ?gcs = "\<lambda>c. case groundingChunks c of None \<Rightarrow> [] | Some g \<Rightarrow> g"
  have c: "capture_citations T c = foldl add_source T (?gcs c)" for T c
    by (simp add: capture_citations_def split: option.splits)
  have "foldl capture_citations T cs = foldl add_source T (concat (map ?gcs cs))" for T
    by (induction cs arbitrary: T) (simp_all add: c)
  moreover have "List.map_filter web_source (concat (map ?gcs cs)) = citations cs"
    by (induction cs)
      (simp_all add: citations_def chunk_citations_def map_filter_append List.map_filter_simps
        split: option.splits)
  ultimately show ?thesis
    by (simp add: foldl_add_source)
qed

lemma foldl_capture_citations_Nil: "foldl capture_citations [] cs = spec_dedup_by_url (citations cs)"
  by (simp add: foldl_capture_citations)

lemma update_fresh_key: "k \<notin> fst ` set m \<Longrightarrow> AList.update k v m = m @ [(k, v)]"
  by (induction m) auto

lemma js_Map_distinct:
  "distinct (map fst (m @ es)) \<Longrightarrow> foldl (\<lambda>m (k, v). AList.update k v m) m es = m @ es"
proof (induction es arbitrary: m)
  case Nil
  show ?case by simp
next
  case (Cons p es)
  obtain k v where p: "p = (k, v)" by (cases p)
  from Cons.prems p have "k \<notin> fst ` set m" by auto
  then have "AList.update k v m = m @ [(k, v)]" by (rule update_fresh_key)
  moreover from Cons.prems p have "distinct (map fst ((m @ [(k, v)]) @ es))" by simp
  ultimately show ?case
    using Cons.IH [of "m @ [(k, v)]"] p by simp
qed

lemma uniqueSources_distinct: "distinct (map url S) \<Longrightarrow> uniqueSources S = S"
proof -
  assume "distinct (map url S)"
  then have "distinct (map fst ([] @ map (\<lambda>s. (url s, s)) S))"
    by (simp add: comp_def)
  then have "js_Map (map (\<lambda>s. (url s, s)) S) = map (\<lambda>s. (url s, s)) S"
    unfolding js_Map_def using js_Map_distinct [of "[]"] by fastforce
  then show ?thesis
    by (simp add: uniqueSources_def comp_def)
qed

lemma map_of_filter_key:
  "map_of (map (\<lambda>s. (url s, title s)) (filter (\<lambda>t. url t \<noteq> a) xs)) u =
     (if u = a then None else map_of (map (\<lambda>s. (url s, title s)) xs) u)"
  by (induction xs) auto

lemma first_title_spec_dedup:
  "map_of (map (\<lambda>s. (url s, title s)) (spec_dedup_by_url xs)) = map_of (map (\<lambda>s. (url s, title s)) xs)"
proof (induction xs)
  case Nil
  show ?case by simp
next
  case (Cons x xs)
  show ?case
  proof
    fix u
    show "map_of (map (\<lambda>s. (url s, title s)) (spec_dedup_by_url (x # xs))) u =
          map_of (map (\<lambda>s. (url s, title s)) (x # xs)) u"
      using Cons.IH by (simp add: map_of_filter_key)
  qed
qed

section \<open>Properties of the judge\<close>

text \<open>
  C1. For every question and every non-empty chunk sequence the judge answers YES
  (relevant) exactly when the generation call returns a reply whose trimmed, upper-cased
  text contains the substring YES and does not contain the substring NO. In every other
  case it answers NO (not relevant): a reply with both tokens, a reply with neither (the
  empty reply among them), and a generation call that throws.
\<close>

theorem judge_decision_rule:
  assumes "dbChunks \<noteq> []"
  shows "fst (judgeContextRelevance e question dbChunks w) =
           (if \<exists>raw. generateContent e (judgePrompt question dbChunks) = Inr raw
                  \<and> (\<exists>ps ss. toUpperCase (trim raw) = ps @ ''YES'' @ ss)
                  \<and> \<not> (\<exists>ps ss. toUpperCase (trim raw) = ps @ ''NO'' @ ss)
            then YES else NO)"
proof (cases "generateContent e (judgePrompt question dbChunks)")
  case (Inl err)
  with assms show ?thesis
    by (simp add: judgeContextRelevance_def Let_def)
next
  case (Inr raw)
  with assms show ?thesis
    unfolding judgeContextRelevance_def Let_def includes_iff by simp
qed

theorem judge_decision_rule_witness:
  "fst (judgeContextRelevance (test_env (Inr '' yes\<newline>'') (Inl (JsError None))) ''q'' [Some ''a''] empty_world) = YES
   \<and> fst (judgeContextRelevance (test_env (Inr ''YES, but also NO'') (Inl (JsError None))) ''q'' [Some ''a''] empty_world) = NO
   \<and> fst (judgeContextRelevance (test_env (Inr []) (Inl (JsError None))) ''q'' [Some ''a''] empty_world) = NO
   \<and> fst (judgeContextRelevance (test_env (Inl (JsError None)) (Inl (JsError None))) ''q'' [Some ''a''] empty_world) = NO"
proof -
  have ne: "[Some ''a''] \<noteq> ([] :: chunk list)" by simp
  note rule = judge_decision_rule [OF ne, unfolded includes_iff [symmetric]]
  note ev = test_env_def toUpperCase_def trim_def is_whitespace_def upper_char_def
  have 1: "fst (judgeContextRelevance (test_env (Inr '' yes\<newline>'') (Inl (JsError None))) ''q'' [Some ''a''] empty_world) = YES"
    using rule [of "test_env (Inr '' yes\<newline>'') (Inl (JsError None))" "''q''" empty_world] by (simp add: ev)
  have 2: "fst (judgeContextRelevance (test_env (Inr ''YES, but also NO'') (Inl (JsError None))) ''q'' [Some ''a''] empty_world) = NO"
    using rule [of "test_env (Inr ''YES, but also NO'') (Inl (JsError None))" "''q''" empty_world] by (simp add: ev)
  have 3: "fst (judgeContextRelevance (test_env (Inr []) (Inl (JsError None))) ''q'' [Some ''a''] empty_world) = NO"
    using rule [of "test_env (Inr []) (Inl (JsError None))" "''q''" empty_world] by (simp add: ev)
  have 4: "fst (judgeContextRelevance (test_env (Inl (JsError None)) (Inl (JsError None))) ''q'' [Some ''a''] empty_world) = NO"
    using rule [of "test_env (Inl (JsError None)) (Inl (JsError None))" "''q''" empty_world] by (simp add: ev)
  from 1 2 3 4 show ?thesis by blast
qed

section \<open>Properties of the chat pipeline\<close>

lemma retrieval_test_empty:
  "retrieval (test_env r g) ''hi'' empty_world =
     (Inr ([2], []), snd (retrieval (test_env r g) ''hi'' empty_world))"
  by (simp add: retrieval_def generateEmbedding_def test_env_def test_embed_def store_response_def
      match_documents_def empty_world_def log_call_def Let_def)

lemma retrieval_test_kb:
  "retrieval (test_env r g) ''What is your return policy?'' kb_world =
     (Inr ([27], [Some ''Returns are accepted within 30 days.'']),
      snd (retrieval (test_env r g) ''What is your return policy?'' kb_world))"
  by (simp add: retrieval_def generateEmbedding_def test_env_def test_embed_def test_distance_def
      store_response_def match_documents_def kb_candidate_def kb_distance_def match_chunk_def
      kb_world_def log_call_def Let_def)

text \<open>
  C2. With an empty chunk sequence the judge answers NO and leaves the world as it is: it
  sends no generation request. In the chat route, when retrieval gives no chunks, the
  judging step answers NO without calling the judge, and the whole request sends no
  judge request.
\<close>

theorem empty_chunks_not_relevant:
  "judgeContextRelevance e question [] w = (NO, w) \<and>
   (getSession e = Inr (Some s) \<and> question \<noteq> [] \<and> retrieval e question w = (Inr (v, []), w1) \<longrightarrow>
      judge_step e question [] w1 = (NO, w1) \<and>
      judge_calls (calls (snd (chat_POST e (Inr (QString question)) w))) = judge_calls (calls w))"
proof -
  have 1: "judgeContextRelevance e question [] w = (NO, w)"
    by (simp add: judgeContextRelevance_def)
  have 2: "judge_step e question [] w1 = (NO, w1)"
    by (simp add: judge_step_def)
  have 3: "judge_calls (calls (snd (chat_POST e (Inr (QString question)) w))) = judge_calls (calls w)"
    if h: "getSession e = Inr (Some s)" "question \<noteq> []" "retrieval e question w = (Inr (v, []), w1)"
  proof -
    have "judge_calls (calls w1) = judge_calls (calls w)"
      using retrieval_frame(3) [of e question w] h(3) by simp
    moreover have "snd (chat_POST e (Inr (QString question)) w) = snd (stream_start e question v [] NO w1)"
      using h 2 by (simp add: chat_POST_def split: prod.splits)
    ultimately show ?thesis
      using stream_start_frame(3) [of e question v "[]" NO w1] by simp
  qed
  from 1 2 3 show ?thesis by blast
qed

theorem empty_chunks_not_relevant_witness:
  "judgeContextRelevance (test_env (Inr ''YES'') (plain_stream [''ok''])) ''hi'' [] empty_world
     = (NO, empty_world)
   \<and> fst (retrieval (test_env (Inr ''YES'') (plain_stream [''ok''])) ''hi'' empty_world) = Inr ([2], [])
   \<and> judge_calls (calls (snd (chat_POST (test_env (Inr ''YES'') (plain_stream [''ok'']))
                                 (Inr (QString ''hi'')) empty_world))) = []"
proof -
  let ?E = "test_env (Inr ''YES'') (plain_stream [''ok''])"
  have s: "getSession ?E = Inr (Some \<lparr>isAdmin = True\<rparr>)"
    by (simp add: test_env_def)
  have r: "retrieval ?E ''hi'' empty_world = (Inr ([2], []), snd (retrieval ?E ''hi'' empty_world))"
    by (rule retrieval_test_empty)
  have r': "fst (retrieval ?E ''hi'' empty_world) = Inr ([2], [])"
    using r by (metis fst_conv)
  have c: "judge_calls (calls empty_world) = []"
    by (simp add: empty_world_def proj_Nil)
  show ?thesis
    using empty_chunks_not_relevant [of ?E "''hi''" empty_world "\<lparr>isAdmin = True\<rparr>" "[2]"
        "snd (retrieval ?E ''hi'' empty_world)"] s r r' c
    by simp
qed

text \<open>
  C3. In a request that reaches the judging step, the enqueue task is started exactly once
  when the verdict is NO, with the question and the embedding that retrieval computed, and
  not at all when the verdict is YES. In both cases the request makes one embedding call,
  the one of retrieval.
\<close>

theorem enqueue_iff_not_relevant:
  assumes "getSession e = Inr (Some s)" and "question \<noteq> []"
    and "retrieval e question w = (Inr (v, dbChunks), w1)"
    and "None \<notin> set (take 3 dbChunks)"
    and "judge_step e question dbChunks w1 = (verdict, w2)"
  shows "enqueue_attempts (calls (snd (chat_POST e (Inr (QString question)) w))) =
           enqueue_attempts (calls w) @ (if verdict = NO then [(question, v)] else [])
       \<and> embeddings_create e question = Inr v
       \<and> embedding_calls (calls (snd (chat_POST e (Inr (QString question)) w))) =
           embedding_calls (calls w) @ [question]"
proof -
  have p: "snd (chat_POST e (Inr (QString question)) w) = snd (stream_start e question v dbChunks verdict w2)"
    using assms by (simp add: chat_POST_def split: prod.splits)
  have j: "enqueue_attempts (calls w2) = enqueue_attempts (calls w)"
          "embedding_calls (calls w2) = embedding_calls (calls w) @ [question]"
    using judge_step_frame(1,2) [of e question dbChunks w1] retrieval_frame(1,2) [of e question w] assms(3,5)
    by simp_all
  have 1: "enqueue_attempts (calls (snd (chat_POST e (Inr (QString question)) w))) =
           enqueue_attempts (calls w) @ (if verdict = NO then [(question, v)] else [])"
    using stream_start_frame(2) [of e question v dbChunks verdict w2] p j by simp
  have 2: "embedding_calls (calls (snd (chat_POST e (Inr (QString question)) w))) =
           embedding_calls (calls w) @ [question]"
    using stream_start_frame(1) [of e question v dbChunks verdict w2] p j by simp
  have 3: "embeddings_create e question = Inr v"
    using assms(3)
    by (auto simp: retrieval_def generateEmbedding_def chat_api_error_def store_response_def Let_def
        split: sum.splits fault.splits option.splits)
  from 1 2 3 show ?thesis by blast
qed

theorem enqueue_iff_not_relevant_witness:
  "enqueue_attempts (calls (snd (chat_POST (test_env (Inr ''NO'') (plain_stream [''ok'']))
      (Inr (QString ''What is your return policy?'')) kb_world)))
     = [(''What is your return policy?'', [27])]
   \<and> enqueue_attempts (calls (snd (chat_POST (test_env (Inr ''YES'') (plain_stream [''ok'']))
      (Inr (QString ''What is your return policy?'')) kb_world))) = []
   \<and> embedding_calls (calls (snd (chat_POST (test_env (Inr ''NO'') (plain_stream [''ok'']))
      (Inr (QString ''What is your return policy?'')) kb_world)))
     = [''What is your return policy?'']"
proof -
  let ?q = "''What is your return policy?''"
  let ?cs = "[Some ''Returns are accepted within 30 days.'']"
  have c: "enqueue_attempts (calls kb_world) = []" "embedding_calls (calls kb_world) = []"
    by (simp_all add: kb_world_def proj_Nil)
  have n: "None \<notin> set (take 3 ?cs)" by simp
  have run: "enqueue_attempts (calls (snd (chat_POST (test_env (Inr r) g) (Inr (QString ?q)) kb_world))) =
               (if fst (judge_step (test_env (Inr r) g) ?q ?cs
                          (snd (retrieval (test_env (Inr r) g) ?q kb_world))) = NO
                then [(?q, [27])] else [])
             \<and> embedding_calls (calls (snd (chat_POST (test_env (Inr r) g) (Inr (QString ?q)) kb_world))) = [?q]"
    for r g
  proof -
    let ?E = "test_env (Inr r) g"
    have s: "getSession ?E = Inr (Some \<lparr>isAdmin = True\<rparr>)"
      by (simp add: test_env_def)
    have j: "judge_step ?E ?q ?cs (snd (retrieval ?E ?q kb_world)) =
               (fst (judge_step ?E ?q ?cs (snd (retrieval ?E ?q kb_world))),
                snd (judge_step ?E ?q ?cs (snd (retrieval ?E ?q kb_world))))"
      by simp
    show ?thesis
      using enqueue_iff_not_relevant [OF s _ retrieval_test_kb n j] c by simp
  qed
  have no: "fst (judge_step (test_env (Inr ''NO'') g) ?q ?cs w) = NO" for g w
    by (simp add: judge_step_def judgeContextRelevance_def test_env_def Let_def
        toUpperCase_def trim_def is_whitespace_def upper_char_def)
  have yes: "fst (judge_step (test_env (Inr ''YES'') g) ?q ?cs w) = YES" for g w
    by (simp add: judge_step_def judgeContextRelevance_def test_env_def Let_def
        toUpperCase_def trim_def is_whitespace_def upper_char_def)
  show ?thesis
    using run [of "''NO''" "plain_stream [''ok'']"] run [of "''YES''" "plain_stream [''ok'']"]
    by (simp add: no yes)
qed

text \<open>
  C9. When the embedding call throws, or the knowledge query answers with an error or
  rejects, the chat route answers with a JSON error of status 500 and no stream; the
  request sends no judge request and no generation request, starts no enqueue task and
  inserts nothing into the queue.
\<close>

theorem retrieval_failure_fails_hard:
  assumes "getSession e = Inr (Some s)" and "question \<noteq> []"
    and "(\<exists>x. embeddings_create e question = Inl x) \<or> match_documents_fault e \<noteq> NoFault"
  shows "(\<exists>msg. fst (chat_POST e (Inr (QString question)) w) = JsonError 500 msg)
    \<and> generation_calls (calls (snd (chat_POST e (Inr (QString question)) w))) = generation_calls (calls w)
    \<and> judge_calls (calls (snd (chat_POST e (Inr (QString question)) w))) = judge_calls (calls w)
    \<and> enqueue_attempts (calls (snd (chat_POST e (Inr (QString question)) w))) = enqueue_attempts (calls w)
    \<and> queue_inserts (calls (snd (chat_POST e (Inr (QString question)) w))) = queue_inserts (calls w)
    \<and> admin_queue (snd (chat_POST e (Inr (QString question)) w)) = admin_queue w"
proof -
  have "\<exists>msg w1. retrieval e question w = (Inl (JsonError 500 msg), w1)"
  proof (cases "embeddings_create e question")
    case (Inl x)
    then show ?thesis
      by (simp add: retrieval_def generateEmbedding_def chat_api_error_def)
  next
    case (Inr queryEmbedding)
    with assms(3) have "match_documents_fault e \<noteq> NoFault" by auto
    with Inr show ?thesis
      by (cases "match_documents_fault e")
        (simp_all add: retrieval_def generateEmbedding_def chat_api_error_def store_response_def Let_def)
  qed
  then obtain msg w1 where r: "retrieval e question w = (Inl (JsonError 500 msg), w1)"
    by blast
  have p: "chat_POST e (Inr (QString question)) w = (JsonError 500 msg, w1)"
    using assms(1,2) r by (simp add: chat_POST_def)
  have q: "admin_queue (snd (retrieval e question w)) = admin_queue w"
    by (simp add: retrieval_def generateEmbedding_def chat_api_error_def store_response_def Let_def
        log_call_simps split: sum.splits fault.splits)
  show ?thesis
    using p r q retrieval_frame(2,3,4,5) [of e question w] by simp
qed

theorem retrieval_failure_fails_hard_witness:
  "chat_POST ((test_env (Inr ''YES'') (plain_stream [''ok'']))\<lparr>embeddings_create := \<lambda>t. Inl (JsError None)\<rparr>)
      (Inr (QString ''hi'')) kb_world
     = (JsonError 500 ''Internal server error'',
        kb_world\<lparr>calls := [EmbeddingsCreate ''hi'', ConsoleError ''Chat API error:'']\<rparr>)
   \<and> chat_POST ((test_env (Inr ''YES'') (plain_stream [''ok'']))\<lparr>match_documents_fault := ErrorResult (PgError ''57014'')\<rparr>)
      (Inr (QString ''hi'')) kb_world
     = (JsonError 500 ''Failed to search knowledge base'',
        kb_world\<lparr>calls := [EmbeddingsCreate ''hi'', MatchDocuments [2] 0.5 5,
                              ConsoleError ''Database search error:'']\<rparr>)"
proof -
  let ?E1 = "(test_env (Inr ''YES'') (plain_stream [''ok'']))\<lparr>embeddings_create := \<lambda>t. Inl (JsError None)\<rparr>"
  let ?E2 = "(test_env (Inr ''YES'') (plain_stream [''ok'']))\<lparr>match_documents_fault := ErrorResult (PgError ''57014'')\<rparr>"
  have s: "getSession ?E1 = Inr (Some \<lparr>isAdmin = True\<rparr>)" "getSession ?E2 = Inr (Some \<lparr>isAdmin = True\<rparr>)"
    by (simp_all add: test_env_def)
  have q: "''hi'' \<noteq> []" by simp
  have f1: "(\<exists>x. embeddings_create ?E1 ''hi'' = Inl x) \<or> match_documents_fault ?E1 \<noteq> NoFault"
    by simp
  have f2: "(\<exists>x. embeddings_create ?E2 ''hi'' = Inl x) \<or> match_documents_fault ?E2 \<noteq> NoFault"
    by simp
  have 1: "chat_POST ?E1 (Inr (QString ''hi'')) kb_world
     = (JsonError 500 ''Internal server error'',
        kb_world\<lparr>calls := [EmbeddingsCreate ''hi'', ConsoleError ''Chat API error:'']\<rparr>)"
    using retrieval_failure_fails_hard [OF s(1) q f1, of kb_world]
    by (simp add: chat_POST_def retrieval_def generateEmbedding_def chat_api_error_def test_env_def
        kb_world_def log_call_def)
  have 2: "chat_POST ?E2 (Inr (QString ''hi'')) kb_world
     = (JsonError 500 ''Failed to search knowledge base'',
        kb_world\<lparr>calls := [EmbeddingsCreate ''hi'', MatchDocuments [2] 0.5 5,
                              ConsoleError ''Database search error:'']\<rparr>)"
    using retrieval_failure_fails_hard [OF s(2) q f2, of kb_world]
    by (simp add: chat_POST_def retrieval_def generateEmbedding_def chat_api_error_def test_env_def
        test_embed_def store_response_def kb_world_def log_call_def Let_def)
  from 1 2 show ?thesis by blast
qed

section \<open>Properties of the queue writer\<close>


text \<open>
  C4, as the specification states it, asks for a new entry with the given question text.
  The insert carries \<open>question.trim()\<close>: for the question \<open>" a"\<close> and an empty
  queue the check finds nothing and the entry written has the text \<open>"a"\<close>.
\<close>

theorem enqueue_given_text_counterexample:
  "match_inbox_questions (test_env (Inr ''NO'') (plain_stream [''ok''])) (admin_queue empty_world) [2] 0.85 1 = []
   \<and> map user_question
        (admin_queue (addToAdminQueue (test_env (Inr ''NO'') (plain_stream [''ok''])) '' a'' [2] empty_world))
      = [''a'']
   \<and> '' a'' \<notin> set (map user_question
        (admin_queue (addToAdminQueue (test_env (Inr ''NO'') (plain_stream [''ok''])) '' a'' [2] empty_world)))"
  by (simp add: addToAdminQueue_def queue_insert_def match_inbox_questions_def store_response_def
      test_env_def empty_world_def log_call_def trim_def is_whitespace_def Let_def)

text \<open>
  C4, amended. When the duplicate check succeeds, it returns an entry exactly when some
  pending queue entry with an embedding has similarity at least 0.85 to the question's
  embedding, and every entry it returns has such a similarity. If it returns an entry,
  \<open>addToAdminQueue\<close> sends no insert and the queue stays as it is. If it returns none,
  \<open>addToAdminQueue\<close> sends the insert of a pending entry with the trimmed question text
  and the given embedding, and that entry is appended when the store accepts the insert.
\<close>

theorem enqueue_dedup:
  assumes "match_inbox_fault e = NoFault"
  shows "((match_inbox_questions e (admin_queue w) v 0.85 1 \<noteq> []) =
            (\<exists>aq\<in>set (admin_queue w). aq_status aq = Pending \<and>
               (\<exists>u. aq_embedding aq = Some u \<and> 1 - distance e u v \<ge> 0.85)))
    \<and> (\<forall>m\<in>set (match_inbox_questions e (admin_queue w) v 0.85 1). im_similarity m \<ge> 0.85)
    \<and> (match_inbox_questions e (admin_queue w) v 0.85 1 \<noteq> [] \<longrightarrow>
          admin_queue (addToAdminQueue e q v w) = admin_queue w
          \<and> queue_inserts (calls (addToAdminQueue e q v w)) = queue_inserts (calls w))
    \<and> (match_inbox_questions e (admin_queue w) v 0.85 1 = [] \<longrightarrow>
          queue_inserts (calls (addToAdminQueue e q v w)) = queue_inserts (calls w) @ [(trim q, Pending, v)]
          \<and> (queue_insert_fault e = NoFault \<longrightarrow>
                admin_queue (addToAdminQueue e q v w) =
                  admin_queue w @ [\<lparr>aq_id = fresh_id (map aq_id (admin_queue w)), user_question = trim q,
                                    aq_status = Pending, aq_embedding = Some v\<rparr>]))"
proof -
  let ?ms = "match_inbox_questions e (admin_queue w) v 0.85 1"
  let ?w1 = "log_call (MatchInboxQuestions v 0.85 1) (log_call (AddToAdminQueue q v) w)"
  have 1: "(?ms \<noteq> []) = (\<exists>aq\<in>set (admin_queue w). aq_status aq = Pending \<and>
               (\<exists>u. aq_embedding aq = Some u \<and> 1 - distance e u v \<ge> 0.85))"
    using match_inbox_nonempty [of e "admin_queue w" v "0.85"]
    by (auto simp: inbox_candidate_def split: option.splits)
  have 2: "\<forall>m\<in>set ?ms. im_similarity m \<ge> 0.85"
    using match_inbox_similarity by blast
  have dup: "addToAdminQueue e q v w = ?w1" if "?ms \<noteq> []"
    using assms that by (simp add: addToAdminQueue_def store_response_def Let_def log_simps)
  have new: "addToAdminQueue e q v w = queue_insert e q v ?w1" if "?ms = []"
    using assms that by (simp add: addToAdminQueue_def store_response_def Let_def log_simps)
  have 3: "admin_queue (addToAdminQueue e q v w) = admin_queue w
          \<and> queue_inserts (calls (addToAdminQueue e q v w)) = queue_inserts (calls w)" if "?ms \<noteq> []"
    using dup [OF that] by (simp add: log_simps)
  have 4: "queue_inserts (calls (addToAdminQueue e q v w)) = queue_inserts (calls w) @ [(trim q, Pending, v)]"
    if "?ms = []"
    using new [OF that] by (simp add: queue_insert_frame log_simps)
  have 5: "admin_queue (addToAdminQueue e q v w) =
                  admin_queue w @ [\<lparr>aq_id = fresh_id (map aq_id (admin_queue w)), user_question = trim q,
                                    aq_status = Pending, aq_embedding = Some v\<rparr>]"
    if "?ms = []" "queue_insert_fault e = NoFault"
    using new [OF that(1)] that(2) by (simp add: queue_insert_table log_simps)
  from 1 2 3 4 5 show ?thesis by blast
qed

text \<open>
  With a pending question of embedding \<open>[10]\<close>: an incoming embedding \<open>[20]\<close> has
  similarity 0.90 and is not inserted, an incoming embedding \<open>[30]\<close> has similarity 0.80
  and is inserted.
\<close>

theorem enqueue_dedup_witness:
  "map im_similarity (match_inbox_questions (test_env (Inr ''NO'') (plain_stream [''ok'']))
       (admin_queue queue_world) [20] 0.85 1) = [0.9]
   \<and> admin_queue (addToAdminQueue (test_env (Inr ''NO'') (plain_stream [''ok'']))
        ''Do you deliver to other countries?'' [20] queue_world) = admin_queue queue_world
   \<and> match_inbox_questions (test_env (Inr ''NO'') (plain_stream [''ok'']))
       (admin_queue queue_world) [30] 0.85 1 = []
   \<and> admin_queue (addToAdminQueue (test_env (Inr ''NO'') (plain_stream [''ok'']))
        '' Is the lid dishwasher safe? '' [30] queue_world)
      = admin_queue queue_world @
        [\<lparr>aq_id = 2, user_question = ''Is the lid dishwasher safe?'', aq_status = Pending,
          aq_embedding = Some [30]\<rparr>]"
proof -
  let ?E = "test_env (Inr ''NO'') (plain_stream [''ok''])"
  have f: "match_inbox_fault ?E = NoFault" "queue_insert_fault ?E = NoFault"
    by (simp_all add: test_env_def)
  have a: "map im_similarity (match_inbox_questions ?E (admin_queue queue_world) [20] 0.85 1) = [0.9]"
    by (simp add: match_inbox_questions_def inbox_candidate_def inbox_distance_def
        test_env_def test_distance_def queue_world_def)
  then have a': "match_inbox_questions ?E (admin_queue queue_world) [20] 0.85 1 \<noteq> []"
    by auto
  have b: "match_inbox_questions ?E (admin_queue queue_world) [30] 0.85 1 = []"
    by (simp add: match_inbox_questions_def inbox_candidate_def inbox_distance_def
        test_env_def test_distance_def queue_world_def)
  have t: "trim '' Is the lid dishwasher safe? '' = ''Is the lid dishwasher safe?''"
    by (simp add: trim_def is_whitespace_def)
  have i: "fresh_id (map aq_id (admin_queue queue_world)) = 2"
    by (simp add: fresh_id_def queue_world_def)
  have 1: "admin_queue (addToAdminQueue ?E ''Do you deliver to other countries?'' [20] queue_world)
             = admin_queue queue_world"
    using enqueue_dedup [OF f(1), of queue_world "[20]" "''Do you deliver to other countries?''"] a'
    by blast
  have 2: "admin_queue (addToAdminQueue ?E '' Is the lid dishwasher safe? '' [30] queue_world)
      = admin_queue queue_world @
        [\<lparr>aq_id = 2, user_question = ''Is the lid dishwasher safe?'', aq_status = Pending,
          aq_embedding = Some [30]\<rparr>]"
    using enqueue_dedup [OF f(1), of queue_world "[30]" "'' Is the lid dishwasher safe? ''"] b f(2) t i
    by simp
  from a b 1 2 show ?thesis by blast
qed

section \<open>Properties of the answer generators\<close>

text \<open>
  C5. When the generation stream of the grounded path completes without error, the
  generator yields the non-empty texts of the stream, in order and unchanged, and then the
  fixed trailer that names the internal knowledge base as the source. The trailer is the
  last thing yielded, and it is yielded after the generator has seen the stream complete.
  The chat route passes this output on as the response stream.
\<close>

theorem internal_answer_stream:
  assumes "generateContentStream e internal_systemPrompt False (internal_userPrompt question dbChunks)
             = Inr result"
    and "completes result"
  shows "yields (fst (generateInternalAnswer e question dbChunks w)) =
           non_empty (stream_texts (stream_chunks result)) @ [db_footer]
       \<and> (\<exists>body. fst (generateInternalAnswer e question dbChunks w) = body @ [Completed, Yield db_footer]
                \<and> Completed \<notin> set body
                \<and> yields body = non_empty (stream_texts (stream_chunks result)))
       \<and> fst (stream_start e question v dbChunks YES w) =
           non_empty (stream_texts (stream_chunks result)) @ [db_footer]"
proof -
  from assms(2) have f: "stream_failure result = None" and r: "list_all readable (stream_chunks result)"
    by (simp_all add: completes_def)
  from internal_loop_completes [OF r] obtain body where b:
      "internal_loop (stream_chunks result) None = (body @ [Completed], None)"
      "Completed \<notin> set body" "yields body = non_empty (stream_texts (stream_chunks result))"
    by blast
  have g: "fst (generateInternalAnswer e question dbChunks w) = body @ [Completed, Yield db_footer]"
    using assms(1) f b(1) by (simp add: generateInternalAnswer_def Let_def)
  have y: "yields (fst (generateInternalAnswer e question dbChunks w)) =
           non_empty (stream_texts (stream_chunks result)) @ [db_footer]"
    using g b(3) by (simp add: yields_append)
  have s: "fst (stream_start e question v dbChunks YES w) =
             yields (fst (generateInternalAnswer e question dbChunks w))"
    by (simp add: stream_start_def split: prod.splits)
  from g y s b(2,3) show ?thesis by auto
qed

theorem internal_answer_stream_witness:
  "fst (generateInternalAnswer (test_env (Inr ''YES'') (plain_stream [''30 '', [], ''days'']))
          ''What is your return policy?'' [Some ''Returns are accepted within 30 days.''] kb_world)
     = [Received, Yield ''30 '', Received, Received, Yield ''days'', Completed,
        Yield ''\<newline>\<newline>---\<newline>**Source:** Database (Internal Knowledge Base)'']
   \<and> fst (stream_start (test_env (Inr ''YES'') (plain_stream [''30 '', [], ''days'']))
          ''What is your return policy?'' [27] [Some ''Returns are accepted within 30 days.''] YES kb_world)
     = [''30 '', ''days'', ''\<newline>\<newline>---\<newline>**Source:** Database (Internal Knowledge Base)'']"
proof -
  let ?E = "test_env (Inr ''YES'') (plain_stream [''30 '', [], ''days''])"
  let ?r = "\<lparr>stream_chunks = map plain_chunk [''30 '', [], ''days''], stream_failure = None\<rparr>"
  have g: "generateContentStream ?E internal_systemPrompt False
             (internal_userPrompt ''What is your return policy?'' [Some ''Returns are accepted within 30 days.''])
           = Inr ?r"
    by (simp add: test_env_def plain_stream_def)
  have c: "completes ?r"
    by (simp add: completes_def readable_def plain_chunk_def)
  have t: "non_empty (stream_texts (stream_chunks ?r)) = [''30 '', ''days'']"
    by (simp add: non_empty_def stream_texts_def plain_chunk_def)
  have 1: "fst (stream_start ?E ''What is your return policy?'' [27]
                 [Some ''Returns are accepted within 30 days.''] YES kb_world)
     = [''30 '', ''days'', ''\<newline>\<newline>---\<newline>**Source:** Database (Internal Knowledge Base)'']"
    using internal_answer_stream [OF g c, of kb_world "[27]"] t by (simp add: db_footer_def)
  have 2: "fst (generateInternalAnswer ?E ''What is your return policy?''
                 [Some ''Returns are accepted within 30 days.''] kb_world)
     = [Received, Yield ''30 '', Received, Received, Yield ''days'', Completed,
        Yield ''\<newline>\<newline>---\<newline>**Source:** Database (Internal Knowledge Base)'']"
    by (simp add: generateInternalAnswer_def test_env_def plain_stream_def plain_chunk_def
        yield_text_def db_footer_def Let_def)
  from 1 2 show ?thesis by blast
qed

text \<open>
  C6, as the specification states it, names the generic trailer "Source: web search". The
  trailer that the generator yields when it collected no citation reads
  \<open>**Source:** Google Search\<close>; the words "Source: web search" do not occur in it.
\<close>

theorem web_trailer_text_counterexample:
  "yields (fst (generateWebSearchAnswer (test_env (Inr ''NO'') (plain_stream [''Hello'']))
                 ''Who founded Pirani?'' empty_world))
     = [''Hello'', ''\<newline>\<newline>---\<newline>**Source:** Google Search'']
   \<and> \<not> includes_str ''\<newline>\<newline>---\<newline>**Source:** Google Search'' ''Source: web search''"
  by (simp add: generateWebSearchAnswer_def test_env_def plain_stream_def plain_chunk_def
      capture_citations_def sources_footer_def google_search_footer_def yield_text_def Let_def)

text \<open>
  C6, amended. When the stream of the web path completes without error, the generator
  yields the non-empty texts of the stream and then, after it has seen the stream complete
  and as the last elements: the header \<open>**Sources:**\<close> followed by one numbered line
  \<open>i. [title](url)\<close> for each collected source when at least one citation was collected,
  and otherwise the single trailer \<open>**Source:** Google Search\<close>. The chat route passes
  this output on as the response stream.
\<close>

theorem web_answer_stream:
  assumes "generateContentStream e web_systemPrompt True question = Inr result"
    and "completes result"
  shows "(\<exists>body. fst (generateWebSearchAnswer e question w) =
                   body @ Completed #
                   map Yield (sources_footer (foldl capture_citations [] (stream_chunks result)))
                \<and> Completed \<notin> set body
                \<and> yields body = non_empty (stream_texts (stream_chunks result)))
       \<and> yields (fst (generateWebSearchAnswer e question w)) =
           non_empty (stream_texts (stream_chunks result)) @
           sources_footer (foldl capture_citations [] (stream_chunks result))
       \<and> sources_footer (foldl capture_citations [] (stream_chunks result)) =
           (if foldl capture_citations [] (stream_chunks result) = [] then [google_search_footer]
            else sources_header #
                 map (\<lambda>(i, s). source_line i s)
                   (enumerate 0 (foldl capture_citations [] (stream_chunks result))))
       \<and> (foldl capture_citations [] (stream_chunks result) = []) = (citations (stream_chunks result) = [])
       \<and> fst (stream_start e question v dbChunks NO w) =
           non_empty (stream_texts (stream_chunks result)) @
           sources_footer (foldl capture_citations [] (stream_chunks result))"
proof -
  let ?S = "foldl capture_citations [] (stream_chunks result)"
  from assms(2) have f: "stream_failure result = None" and r: "list_all readable (stream_chunks result)"
    by (simp_all add: completes_def)
  from web_loop_completes [OF r, of "[]"] obtain body where b:
      "web_loop (stream_chunks result) None [] = (body @ [Completed], Inr ?S)"
      "Completed \<notin> set body" "yields body = non_empty (stream_texts (stream_chunks result))"
    by blast
  have g: "fst (generateWebSearchAnswer e question w') = body @ Completed # map Yield (sources_footer ?S)"
    for w'
    using assms(1) f b(1) by (simp add: generateWebSearchAnswer_def Let_def)
  have y: "yields (fst (generateWebSearchAnswer e question w')) =
             non_empty (stream_texts (stream_chunks result)) @ sources_footer ?S" for w'
    using b(3) by (simp add: g yields_append yields_map_Yield)
  have d: "uniqueSources ?S = ?S"
    by (simp add: foldl_capture_citations_Nil uniqueSources_distinct distinct_spec_dedup)
  have t: "sources_footer ?S =
           (if ?S = [] then [google_search_footer]
            else sources_header # map (\<lambda>(i, s). source_line i s) (enumerate 0 ?S))"
    by (simp add: sources_footer_def d)
  have n: "(?S = []) = (citations (stream_chunks result) = [])"
    by (cases "citations (stream_chunks result)") (simp_all add: foldl_capture_citations_Nil)
  have s: "fst (stream_start e question v dbChunks NO w) =
             yields (fst (generateWebSearchAnswer e question (addToAdminQueue e question v w)))"
    by (simp add: stream_start_def split: prod.splits)
  from g [of w] b(2,3) have 1:
    "\<exists>body. fst (generateWebSearchAnswer e question w) = body @ Completed # map Yield (sources_footer ?S)
         \<and> Completed \<notin> set body \<and> yields body = non_empty (stream_texts (stream_chunks result))"
    by blast
  from 1 y [of w] t n s y [of "addToAdminQueue e question v w"] show ?thesis
    by simp
qed

theorem web_answer_stream_witness:
  "yields (fst (generateWebSearchAnswer (test_env (Inr ''NO'') (plain_stream [''Hello'', [], ''there.'']))
                 ''Who founded Pirani?'' empty_world))
     = [''Hello'', ''there.'', ''\<newline>\<newline>---\<newline>**Source:** Google Search'']
   \<and> yields (fst (generateWebSearchAnswer
        (test_env (Inr ''NO'')
           (cited_stream [cited_chunk ''Hello'' [(''Pirani'', ''https://pirani.life'')],
                          cited_chunk ''there.'' [(''About'', ''https://pirani.life/about'')]]))
        ''Who founded Pirani?'' empty_world))
     = [''Hello'', ''there.'', ''\<newline>\<newline>---\<newline>**Sources:**\<newline>'',
        ''1. [Pirani](https://pirani.life)\<newline>'',
        ''2. [About](https://pirani.life/about)\<newline>'']"
proof -
  let ?q = "''Who founded Pirani?''"
  let ?r1 = "\<lparr>stream_chunks = map plain_chunk [''Hello'', [], ''there.''], stream_failure = None\<rparr>"
  let ?cs = "[cited_chunk ''Hello'' [(''Pirani'', ''https://pirani.life'')],
              cited_chunk ''there.'' [(''About'', ''https://pirani.life/about'')]]"
  let ?r2 = "\<lparr>stream_chunks = ?cs, stream_failure = None\<rparr>"
  have g1: "generateContentStream (test_env (Inr ''NO'') (plain_stream [''Hello'', [], ''there.'']))
              web_systemPrompt True ?q = Inr ?r1"
    by (simp add: test_env_def plain_stream_def)
  have g2: "generateContentStream (test_env (Inr ''NO'') (cited_stream ?cs)) web_systemPrompt True ?q = Inr ?r2"
    by (simp add: test_env_def cited_stream_def)
  have c1: "completes ?r1"
    by (simp add: completes_def readable_def plain_chunk_def)
  have c2: "completes ?r2"
    by (simp add: completes_def readable_def cited_chunk_def)
  have t1: "non_empty (stream_texts (stream_chunks ?r1)) = [''Hello'', ''there.'']"
    by (simp add: non_empty_def stream_texts_def plain_chunk_def)
  have t2: "non_empty (stream_texts (stream_chunks ?r2)) = [''Hello'', ''there.'']"
    by (simp add: non_empty_def stream_texts_def cited_chunk_def)
  have s1: "foldl capture_citations [] (stream_chunks ?r1) = []"
    by (simp add: capture_citations_def plain_chunk_def)
  have s2: "foldl capture_citations [] (stream_chunks ?r2) =
              [\<lparr>title = ''Pirani'', url = ''https://pirani.life''\<rparr>,
               \<lparr>title = ''About'', url = ''https://pirani.life/about''\<rparr>]"
    by (simp add: capture_citations_def cited_chunk_def add_source_def web_source_def)
  have n: "show_nat (Suc 0) = ''1''" "show_nat (Suc (Suc 0)) = ''2''"
    by (simp_all add: show_nat.simps digit_char_def)
  have 1: "yields (fst (generateWebSearchAnswer (test_env (Inr ''NO'') (plain_stream [''Hello'', [], ''there.'']))
                 ?q empty_world))
     = [''Hello'', ''there.'', ''\<newline>\<newline>---\<newline>**Source:** Google Search'']"
    unfolding conjunct1 [OF conjunct2 [OF web_answer_stream [OF g1 c1, of empty_world]]] t1 s1
    by (simp add: sources_footer_def google_search_footer_def)
  have 2: "yields (fst (generateWebSearchAnswer (test_env (Inr ''NO'') (cited_stream ?cs)) ?q empty_world))
     = [''Hello'', ''there.'', ''\<newline>\<newline>---\<newline>**Sources:**\<newline>'',
        ''1. [Pirani](https://pirani.life)\<newline>'',
        ''2. [About](https://pirani.life/about)\<newline>'']"
    unfolding conjunct1 [OF conjunct2 [OF web_answer_stream [OF g2 c2, of empty_world]]] t2 s2
    using n by (simp add: sources_footer_def uniqueSources_def js_Map_def sources_header_def source_line_def)
  from 1 2 show ?thesis by blast
qed

text \<open>
  C7. The sources of the footer are the citations of the stream deduplicated by URL as the
  specification words it: no two entries share a URL, every cited URL has an entry, the
  title of an entry is the title of the first citation with its URL, and the entries stand
  in the order of these first citations. When the stream completes without error and
  carries a citation, the generator yields, after the texts, the header and one numbered
  line for each of these entries.
\<close>

theorem citation_dedup:
  "uniqueSources (foldl capture_citations [] cs) = spec_dedup_by_url (citations cs)
   \<and> distinct (map url (uniqueSources (foldl capture_citations [] cs)))
   \<and> url ` set (uniqueSources (foldl capture_citations [] cs)) = url ` set (citations cs)
   \<and> map_of (map (\<lambda>s. (url s, title s)) (uniqueSources (foldl capture_citations [] cs)))
       = map_of (map (\<lambda>s. (url s, title s)) (citations cs))
   \<and> (generateContentStream e web_systemPrompt True question = Inr result \<and> completes result
        \<and> citations (stream_chunks result) \<noteq> [] \<longrightarrow>
      yields (fst (generateWebSearchAnswer e question w)) =
        non_empty (stream_texts (stream_chunks result)) @
        sources_header #
        map (\<lambda>(i, s). source_line i s) (enumerate 0 (spec_dedup_by_url (citations (stream_chunks result)))))"
proof -
  have u: "uniqueSources (foldl capture_citations [] cs) = spec_dedup_by_url (citations cs)" for cs
    by (simp add: foldl_capture_citations_Nil uniqueSources_distinct distinct_spec_dedup)
  have g: "yields (fst (generateWebSearchAnswer e question w)) =
        non_empty (stream_texts (stream_chunks result)) @
        sources_header #
        map (\<lambda>(i, s). source_line i s) (enumerate 0 (spec_dedup_by_url (citations (stream_chunks result))))"
    if h: "generateContentStream e web_systemPrompt True question = Inr result" "completes result"
      "citations (stream_chunks result) \<noteq> []"
  proof -
    from h(2) have f: "stream_failure result = None" and r: "list_all readable (stream_chunks result)"
      by (simp_all add: completes_def)
    from web_loop_completes [OF r, of "[]"] obtain body where b:
      "web_loop (stream_chunks result) None [] =
         (body @ [Completed], Inr (foldl capture_citations [] (stream_chunks result)))"
      "yields body = non_empty (stream_texts (stream_chunks result))"
      by blast
    have n: "foldl capture_citations [] (stream_chunks result) \<noteq> []"
      using h(3) by (cases "citations (stream_chunks result)") (simp_all add: foldl_capture_citations_Nil)
    have "fst (generateWebSearchAnswer e question w) =
            body @ [Completed] @ map Yield (sources_footer (foldl capture_citations [] (stream_chunks result)))"
      using h(1) f b(1) by (simp add: generateWebSearchAnswer_def Let_def)
    then show ?thesis
      using b(2) n u [of "stream_chunks result"]
      by (simp add: yields_append yields_map_Yield_comp sources_footer_def)
  qed
  show ?thesis
    using u [of cs] g distinct_spec_dedup [of "citations cs"] set_spec_dedup [of "citations cs"]
      first_title_spec_dedup [of "citations cs"]
    by simp
qed

text \<open>
  Two citations with the same URL and different titles, in different chunks, and a third
  citation between them: the footer has one entry for the shared URL, with the first title.
\<close>

theorem citation_dedup_witness:
  "yields (fst (generateWebSearchAnswer
        (test_env (Inr ''NO'')
           (cited_stream [cited_chunk ''Hello'' [(''First'', ''https://a.example''), (''Other'', ''https://b.example'')],
                          cited_chunk ''there.'' [(''Second'', ''https://a.example'')]]))
        ''Who founded Pirani?'' empty_world))
     = [''Hello'', ''there.'', ''\<newline>\<newline>---\<newline>**Sources:**\<newline>'',
        ''1. [First](https://a.example)\<newline>'',
        ''2. [Other](https://b.example)\<newline>'']"
proof -
  let ?q = "''Who founded Pirani?''"
  let ?cs = "[cited_chunk ''Hello'' [(''First'', ''https://a.example''), (''Other'', ''https://b.example'')],
              cited_chunk ''there.'' [(''Second'', ''https://a.example'')]]"
  let ?r = "\<lparr>stream_chunks = ?cs, stream_failure = None\<rparr>"
  have g: "generateContentStream (test_env (Inr ''NO'') (cited_stream ?cs)) web_systemPrompt True ?q = Inr ?r"
    by (simp add: test_env_def cited_stream_def)
  have c: "completes ?r"
    by (simp add: completes_def readable_def cited_chunk_def)
  have t: "non_empty (stream_texts (stream_chunks ?r)) = [''Hello'', ''there.'']"
    by (simp add: non_empty_def stream_texts_def cited_chunk_def)
  have k: "citations (stream_chunks ?r) =
             [\<lparr>title = ''First'', url = ''https://a.example''\<rparr>,
              \<lparr>title = ''Other'', url = ''https://b.example''\<rparr>,
              \<lparr>title = ''Second'', url = ''https://a.example''\<rparr>]"
    by (simp add: citations_def chunk_citations_def cited_chunk_def web_source_def List.map_filter_simps)
  have n: "show_nat (Suc 0) = ''1''" "show_nat (Suc (Suc 0)) = ''2''"
    by (simp_all add: show_nat.simps digit_char_def)
  have k0: "citations (stream_chunks ?r) \<noteq> []"
    unfolding k by simp
  note imp = conjunct2 [OF conjunct2 [OF conjunct2 [OF conjunct2
    [OF citation_dedup [of ?cs "test_env (Inr ''NO'') (cited_stream ?cs)" ?q ?r empty_world]]]]]
  show ?thesis
    unfolding mp [OF imp conjI [OF g conjI [OF c k0]]] t k
    using n by (simp add: sources_header_def source_line_def)
qed

section \<open>Properties of the knowledge routes\<close>

text \<open>
  C8. The embedding of an entry must be the embedding of the question text of the entry,
  after a create and after every edit. Both routes request the embedding of the question
  alone, but of the question as it was submitted, and store the trimmed question. An edit
  and a create that submit a question with surrounding blanks leave an entry whose
  embedding is not the embedding of the text it stores: the edit stores a question of 27
  characters with the embedding of the 28 submitted, the create a question of 19 characters
  with the embedding of the 21 submitted. The retrieval of the chat route, asked the stored
  question, queries with the embedding of the stored text.
\<close>

theorem knowledge_embedding_out_of_sync:
  "knowledge_PUT (test_env (Inr ''NO'') (plain_stream [''ok'']))
      (Inr \<lparr>b_id = Some 1, b_question = Some '' What is your return policy?'',
            b_answer = Some ''30 days'', b_queueId = None\<rparr>) kb_world
     = (JsonSuccess \<lparr>kb_id = 1, kb_question = ''What is your return policy?'', kb_answer = ''30 days'',
                     kb_embedding = Some [28]\<rparr>,
        \<lparr>knowledge_base =
           [\<lparr>kb_id = 1, kb_question = ''What is your return policy?'', kb_answer = ''30 days'',
             kb_embedding = Some [28]\<rparr>],
         admin_queue = [],
         calls = [EmbeddingsCreate '' What is your return policy?'',
                  KbUpdate 1 ''What is your return policy?'' ''30 days'' [28]]\<rparr>)
   \<and> embeddings_create (test_env (Inr ''NO'') (plain_stream [''ok''])) ''What is your return policy?''
     = Inr [27]
   \<and> knowledge_base (snd (knowledge_POST (test_env (Inr ''NO'') (plain_stream [''ok'']))
      (Inr \<lparr>b_id = None, b_question = Some '' Do you ship abroad? '',
            b_answer = Some ''Yes.'', b_queueId = None\<rparr>) empty_world))
     = [\<lparr>kb_id = 1, kb_question = ''Do you ship abroad?'', kb_answer = ''Yes.'', kb_embedding = Some [21]\<rparr>]
   \<and> embeddings_create (test_env (Inr ''NO'') (plain_stream [''ok''])) ''Do you ship abroad?'' = Inr [19]
   \<and> fst (retrieval (test_env (Inr ''NO'') (plain_stream [''ok''])) ''What is your return policy?'' kb_world)
     = Inr ([27], [Some ''Returns are accepted within 30 days.''])"
proof -
  let ?E = "test_env (Inr ''NO'') (plain_stream [''ok''])"
  have 1: "knowledge_PUT ?E
      (Inr \<lparr>b_id = Some 1, b_question = Some '' What is your return policy?'',
            b_answer = Some ''30 days'', b_queueId = None\<rparr>) kb_world
     = (JsonSuccess \<lparr>kb_id = 1, kb_question = ''What is your return policy?'', kb_answer = ''30 days'',
                     kb_embedding = Some [28]\<rparr>,
        \<lparr>knowledge_base =
           [\<lparr>kb_id = 1, kb_question = ''What is your return policy?'', kb_answer = ''30 days'',
             kb_embedding = Some [28]\<rparr>],
         admin_queue = [],
         calls = [EmbeddingsCreate '' What is your return policy?'',
                  KbUpdate 1 ''What is your return policy?'' ''30 days'' [28]]\<rparr>)"
    by (simp add: knowledge_PUT_def update_knowledge_def generateEmbedding_def update_kb_row_def
        test_env_def test_embed_def kb_world_def log_call_def trim_def is_whitespace_def Let_def)
  have 2: "embeddings_create ?E ''What is your return policy?'' = Inr [27]"
    by (simp add: test_env_def test_embed_def)
  have 3: "knowledge_base (snd (knowledge_POST ?E
      (Inr \<lparr>b_id = None, b_question = Some '' Do you ship abroad? '',
            b_answer = Some ''Yes.'', b_queueId = None\<rparr>) empty_world))
     = [\<lparr>kb_id = 1, kb_question = ''Do you ship abroad?'', kb_answer = ''Yes.'', kb_embedding = Some [21]\<rparr>]"
    by (simp add: knowledge_POST_def insert_knowledge_def generateEmbedding_def test_env_def
        test_embed_def fresh_id_def empty_world_def log_call_def trim_def is_whitespace_def Let_def)
  have 4: "embeddings_create ?E ''Do you ship abroad?'' = Inr [19]"
    by (simp add: test_env_def test_embed_def)
  have 5: "fst (retrieval ?E ''What is your return policy?'' kb_world)
     = Inr ([27], [Some ''Returns are accepted within 30 days.''])"
    using retrieval_test_kb [of "Inr ''NO''" "plain_stream [''ok'']"] by (metis fst_conv)
  from 1 2 3 4 5 show ?thesis by blast
qed

end
